theory Spec2Isabelle
  imports
    Main
    "HOL-Library.AList"
    "HOL-Library.Char_ord"
    "HOL-Library.List_Lexorder"
    "HOL-Library.Multiset"
begin

section \<open>Python values used by analyze\_bcpf.py\<close>

text \<open>
  The script \<^verbatim>\<open>scripts/hiddenapi/analyze_bcpf.py\<close> is embedded function by function.
  A Python \<^verbatim>\<open>str\<close> is a \<^typ>\<open>string\<close>; a raise or \<^verbatim>\<open>sys.exit\<close> is the left
  summand of a result \<open>error + 'a\<close>; a \<^verbatim>\<open>dict\<close> is an association list kept in
  insertion order (\<^const>\<open>AList.update\<close> overwrites in place and appends a new key, as
  a Python dict does); a \<^verbatim>\<open>set\<close> is a HOL set, and where the script iterates one
  the order is a parameter. Logging and the advisory texts passed to \<^verbatim>\<open>report\<close>
  are left out: no result depends on them.
\<close>

datatype error =
    SystemExit int
  | StopIteration
  | Exception string
  | AttributeError
  | TimeoutExpired

definition NL :: string where
  "NL = [CHR 0x0A]"

definition DQ :: string where
  "DQ = [CHR 0x22]"

subsection \<open>String methods\<close>

definition startswith :: "string \<Rightarrow> string \<Rightarrow> bool" where
  "startswith s p = (take (length p) s = p)"

definition endswith :: "string \<Rightarrow> string \<Rightarrow> bool" where
  "endswith s p = (length p \<le> length s \<and> drop (length s - length p) s = p)"

definition removeprefix :: "string \<Rightarrow> string \<Rightarrow> string" where
  "removeprefix s p = (if startswith s p then drop (length p) s else s)"

definition removesuffix :: "string \<Rightarrow> string \<Rightarrow> string" where
  "removesuffix s p =
     (if p \<noteq> [] \<and> endswith s p then take (length s - length p) s else s)"

text \<open>\<^verbatim>\<open>sub in s\<close> on strings.\<close>

fun contains :: "string \<Rightarrow> string \<Rightarrow> bool" where
  "contains [] sub = (sub = [])"
| "contains (c # cs) sub = (startswith (c # cs) sub \<or> contains cs sub)"

text \<open>
  \<^verbatim>\<open>s.split(sep)\<close>. Every call of the script passes a non-empty literal separator
  (Python raises ValueError on an empty one; the model then returns \<open>[s]\<close>).
\<close>

function py_split :: "string \<Rightarrow> string \<Rightarrow> string list" where
  "py_split [] sep = [[]]"
| "py_split (c # cs) sep =
     (if sep \<noteq> [] \<and> startswith (c # cs) sep
      then [] # py_split (drop (length sep) (c # cs)) sep
      else (case py_split cs sep of
              w # ws \<Rightarrow> (c # w) # ws
            | [] \<Rightarrow> [[c]]))"
  by pat_completeness auto
termination
  by (relation "measure (\<lambda>(s, sep). length s)") auto

text \<open>\<^verbatim>\<open>sep.join(xs)\<close>.\<close>

fun py_join :: "string \<Rightarrow> string list \<Rightarrow> string" where
  "py_join sep [] = []"
| "py_join sep [x] = x"
| "py_join sep (x # y # ys) = x @ sep @ py_join sep (y # ys)"

text \<open>\<^verbatim>\<open>s.replace(old, new)\<close> for single characters, and \<^verbatim>\<open>s.strip("\n")\<close>.\<close>

definition replace_char :: "string \<Rightarrow> char \<Rightarrow> char \<Rightarrow> string" where
  "replace_char s old new = map (\<lambda>c. if c = old then new else c) s"

definition strip_newlines :: "string \<Rightarrow> string" where
  "strip_newlines s =
     rev (dropWhile (\<lambda>c. c = CHR 0x0A) (rev (dropWhile (\<lambda>c. c = CHR 0x0A) s)))"

text \<open>
  \<^verbatim>\<open>textwrap.indent(text, prefix)\<close>: the text is cut into lines by
  \<^verbatim>\<open>str.splitlines(True)\<close>, which keeps the line ends, and the prefix is put before
  every line that is not white space only. A character stands for a code point below
  256; among these Python breaks lines at the eight characters of \<open>is_linebreak\<close>
  (a carriage return followed by a line feed is one break) and strips the twelve
  characters of \<open>is_space\<close>.
\<close>

definition is_linebreak :: "char \<Rightarrow> bool" where
  "is_linebreak c =
     (c \<in> {CHR 0x0A, CHR 0x0B, CHR 0x0C, CHR 0x0D, CHR 0x1C, CHR 0x1D, CHR 0x1E, CHR 0x85})"

definition is_space :: "char \<Rightarrow> bool" where
  "is_space c =
     (c \<in> {CHR 0x09, CHR 0x0A, CHR 0x0B, CHR 0x0C, CHR 0x0D, CHR 0x1C, CHR 0x1D, CHR 0x1E,
            CHR 0x1F, CHR 0x20, CHR 0x85, CHR 0xA0})"

text \<open>\<open>splitlines_keepends cur s\<close>: the lines of \<open>s\<close>, the first one begun by \<open>cur\<close>.\<close>

fun splitlines_keepends :: "string \<Rightarrow> string \<Rightarrow> string list" where
  "splitlines_keepends cur [] = (if cur = [] then [] else [cur])"
| "splitlines_keepends cur [c] = [cur @ [c]]"
| "splitlines_keepends cur (c # d # cs) =
     (if c = CHR 0x0D \<and> d = CHR 0x0A
      then (cur @ [c, d]) # splitlines_keepends [] cs
      else if is_linebreak c
      then (cur @ [c]) # splitlines_keepends [] (d # cs)
      else splitlines_keepends (cur @ [c]) (d # cs))"

definition textwrap_indent :: "string \<Rightarrow> string \<Rightarrow> string" where
  "textwrap_indent txt prefix =
     concat (map (\<lambda>line. if \<not> list_all is_space line then prefix @ line else line)
               (splitlines_keepends [] txt))"

text \<open>\<^verbatim>\<open>os.path.join\<close> of posixpath, one step of its loop over the components.\<close>

definition path_join :: "string \<Rightarrow> string \<Rightarrow> string" where
  "path_join a b =
     (if startswith b ''/'' then b
      else if a = [] \<or> endswith a ''/'' then a @ b
      else a @ ''/'' @ b)"

section \<open>Data model\<close>

text \<open>\<^verbatim>\<open>FlagDiffs.diffs\<close>: signature to (module flags, monolithic flags).\<close>

type_synonym flag_diffs = "(string \<times> (string list \<times> string list)) list"

text \<open>\<^verbatim>\<open>ModuleInfo.modules\<close>, restricted to the one key the script reads, "path".\<close>

type_synonym ModuleInfo = "string \<rightharpoonup> string list"

record BcpfAnalyzer =
  top_dir :: string
  out_dir :: string
  product_out_dir :: string
  bcpf :: string
  apex :: string
  sdk :: string
  signatures_attr :: "string set"
  classes_attr :: "string set"
  module_info :: "ModuleInfo option"

text \<open>The constructor call of \<^verbatim>\<open>main\<close>: the two sets start empty, module\_info is None.\<close>

definition new_BcpfAnalyzer ::
  "string \<Rightarrow> string \<Rightarrow> string \<Rightarrow> string \<Rightarrow> string \<Rightarrow> string \<Rightarrow> BcpfAnalyzer" where
  "new_BcpfAnalyzer td od pd b a s =
     \<lparr>top_dir = td, out_dir = od, product_out_dir = pd,
      bcpf = b, apex = a, sdk = s,
      signatures_attr = {}, classes_attr = {}, module_info = None\<rparr>"

subsection \<open>ModuleInfo\<close>

definition ModuleInfo_module_path :: "ModuleInfo \<Rightarrow> string \<Rightarrow> error + string" where
  "ModuleInfo_module_path modules module_name =
     (case modules module_name of
        None \<Rightarrow> Inl (Exception (''Module '' @ module_name @ '' could not be found''))
      | Some paths \<Rightarrow>
          if length (remdups paths) \<noteq> 1
          then Inl (Exception (''Expected module '' @ module_name
                                 @ '' to have a single unique path''))
          else Inr (hd paths))"

definition module_path :: "BcpfAnalyzer \<Rightarrow> string \<Rightarrow> error + string" where
  "module_path an module_name =
     (case module_info an of
        None \<Rightarrow> Inl AttributeError
      | Some mi \<Rightarrow> ModuleInfo_module_path mi module_name)"

definition module_out_dir :: "BcpfAnalyzer \<Rightarrow> string \<Rightarrow> error + string" where
  "module_out_dir an module_name =
     (case module_path an module_name of
        Inl e \<Rightarrow> Inl e
      | Inr p \<Rightarrow>
          Inr (path_join (path_join (path_join (out_dir an) ''soong/.intermediates'') p)
                 module_name))"

section \<open>The inconsistent flags report\<close>

definition INCONSISTENT_FLAGS :: string where
  "INCONSISTENT_FLAGS = ''ERROR: Hidden API flags are inconsistent:''"

text \<open>
  \<^verbatim>\<open>check_inconsistent_flag_lines\<close>: the flag \<open>significant\<close> only selects debug
  logging, which the model does not keep.
\<close>

definition check_inconsistent_flag_lines ::
  "bool \<Rightarrow> string \<Rightarrow> string \<Rightarrow> string \<Rightarrow> error + unit" where
  "check_inconsistent_flag_lines significant module_line monolithic_line separator_line =
     (if \<not> (startswith module_line ''< '' \<and> startswith monolithic_line ''> ''
             \<and> separator_line = [])
      then Inl (SystemExit 1)
      else Inr ())"

text \<open>
  The \<^verbatim>\<open>for\<close> loop over \<^verbatim>\<open>zip(lines, lines, lines)\<close>. The three arguments of zip
  are one iterator, so each step takes three lines; when fewer than three are left zip
  takes them and stops, and the loop ends with the iterator exhausted. The result is
  the returned separator line, the dict, and the lines left in the iterator. Index 0
  of a split is \<open>hd\<close>: a split is never empty (lemma \<open>py_split_nonempty\<close>).
\<close>

fun scan_triples ::
  "bool \<Rightarrow> flag_diffs \<Rightarrow> string list \<Rightarrow> error + (string \<times> flag_diffs \<times> string list)" where
  "scan_triples significant diffs (module_line # monolithic_line # separator_line # lines) =
     (case check_inconsistent_flag_lines significant module_line monolithic_line [] of
        Inl e \<Rightarrow> Inl e
      | Inr _ \<Rightarrow>
          (let module_parts = py_split (removeprefix module_line ''< '') '','';
               module_signature = hd module_parts;
               module_flags = tl module_parts;
               monolithic_parts = py_split (removeprefix monolithic_line ''> '') '','';
               monolithic_signature = hd monolithic_parts;
               monolithic_flags = tl monolithic_parts
           in if module_signature \<noteq> monolithic_signature then Inl (SystemExit 1)
              else (let diffs' = AList.update module_signature
                                   (module_flags, monolithic_flags) diffs
                    in if separator_line \<noteq> [] then Inr (separator_line, diffs', lines)
                       else scan_triples significant diffs' lines)))"
| "scan_triples significant diffs lines = Inr ([], diffs, [])"

text \<open>
  \<^verbatim>\<open>scan_inconsistent_flags_report\<close>: \<^verbatim>\<open>next(triples)\<close> raises StopIteration when
  fewer than three lines are left.
\<close>

definition scan_inconsistent_flags_report ::
  "BcpfAnalyzer \<Rightarrow> string list \<Rightarrow> error + (string \<times> flag_diffs \<times> string list)" where
  "scan_inconsistent_flags_report an lines =
     (case lines of
        module_line # monolithic_line # separator_line # rest \<Rightarrow>
          (case module_path an (bcpf an) of
             Inl e \<Rightarrow> Inl e
           | Inr bcpf_dir \<Rightarrow>
               (let significant = contains module_line (path_join bcpf_dir (bcpf an))
                in case check_inconsistent_flag_lines significant module_line
                          monolithic_line separator_line of
                     Inl e \<Rightarrow> Inl e
                   | Inr _ \<Rightarrow> scan_triples significant [] rest))
      | _ \<Rightarrow> Inl StopIteration)"

text \<open>
  Termination of the scan of a whole build output rests on each report consuming
  at least its header triple.
\<close>

lemma scan_triples_length:
  "scan_triples sg d lines = Inr (l, d', rest) \<Longrightarrow> length rest \<le> length lines"
proof (induction sg d lines rule: scan_triples.induct)
  case (1 sg d m p s lines)
  show ?case
  proof (cases "s = []")
    case True
    with "1.prems" obtain d1 where "scan_triples sg d1 lines = Inr (l, d', rest)"
      by (auto simp: Let_def split: sum.splits if_splits)
    with "1.prems" True have "length rest \<le> length lines"
      using "1.IH" by (auto simp: Let_def split: sum.splits if_splits)
    then show ?thesis by simp
  next
    case False
    with "1.prems" show ?thesis
      by (auto simp: Let_def split: sum.splits if_splits)
  qed
qed auto

lemma scan_inconsistent_flags_report_length:
  "scan_inconsistent_flags_report an lines = Inr (l, d, rest) \<Longrightarrow> length rest < length lines"
  unfolding scan_inconsistent_flags_report_def
  by (auto simp: Let_def split: list.splits sum.splits dest!: scan_triples_length)

section \<open>Running the build\<close>

text \<open>
  Everything outside the script is a field of the record \<open>world\<close>: the build
  (\<^verbatim>\<open>subprocess.Popen\<close> of soong\_ui.bash for a target: the lines of its output as
  \<^verbatim>\<open>newline_stripping_iter\<close> yields them, and what \<^verbatim>\<open>wait(timeout=10)\<close> gives),
  the files read, and what the script takes from the library without the model
  computing it (\<^verbatim>\<open>os.path.relpath\<close>, \<^verbatim>\<open>textwrap.wrap\<close>, and the order in which
  a Python set is iterated).
\<close>

datatype wait_result = Exited int | TimedOut

record BuildOperation =
  stdout_lines :: "string list"
  popen_wait :: wait_result

record world =
  soong_ui :: "string \<Rightarrow> BuildOperation"
  json_load :: "string \<Rightarrow> error + ModuleInfo"
  os_walk :: "string \<Rightarrow> (string \<times> string list) list"
  os_listdir :: "string \<Rightarrow> error + string list"
  open_lines :: "string \<Rightarrow> error + string list"
  os_path_relpath :: "string \<Rightarrow> string \<Rightarrow> string"
  textwrap_wrap :: "string \<Rightarrow> int \<Rightarrow> string list"
  set_iter :: "string set \<Rightarrow> string list"

definition build_file_read_output :: "world \<Rightarrow> BcpfAnalyzer \<Rightarrow> string \<Rightarrow> BuildOperation" where
  "build_file_read_output w an filename = soong_ui w (removeprefix filename (top_dir an))"

text \<open>
  The two nested loops of \<^verbatim>\<open>build_hiddenapi_flags\<close> over the one iterator
  \<open>lines\<close>: the \<^verbatim>\<open>for\<close> takes the next line; the \<^verbatim>\<open>while\<close> scans a report for
  as long as the line is the marker, and each scan assigns the line and the dict.
\<close>

function build_hiddenapi_flags_for ::
    "BcpfAnalyzer \<Rightarrow> flag_diffs option \<Rightarrow> string list \<Rightarrow> error + flag_diffs option"
  and build_hiddenapi_flags_while ::
    "BcpfAnalyzer \<Rightarrow> flag_diffs option \<Rightarrow> string \<Rightarrow> string list \<Rightarrow> error + flag_diffs option"
  where
  "build_hiddenapi_flags_for an d [] = Inr d"
| "build_hiddenapi_flags_for an d (line # lines) = build_hiddenapi_flags_while an d line lines"
| "build_hiddenapi_flags_while an d line lines =
     (if line = INCONSISTENT_FLAGS
      then (case scan_inconsistent_flags_report an lines of
              Inl e \<Rightarrow> Inl e
            | Inr (line', d', lines') \<Rightarrow> build_hiddenapi_flags_while an (Some d') line' lines')
      else build_hiddenapi_flags_for an d lines)"
  by pat_completeness auto
termination
  by (relation "measure (\<lambda>x. case x of
                   Inl (an, d, lines) \<Rightarrow> 2 * length lines
                 | Inr (an, d, line, lines) \<Rightarrow> 2 * length lines + 1)")
     (auto dest: scan_inconsistent_flags_report_length)

declare build_hiddenapi_flags_while.simps [simp del]

definition build_hiddenapi_flags ::
  "world \<Rightarrow> BcpfAnalyzer \<Rightarrow> string \<Rightarrow> error + flag_diffs option" where
  "build_hiddenapi_flags w an filename =
     (let output = build_file_read_output w an filename
      in case build_hiddenapi_flags_for an None (stdout_lines output) of
           Inl e \<Rightarrow> Inl e
         | Inr d \<Rightarrow>
             (case popen_wait output of
                TimedOut \<Rightarrow> Inl TimeoutExpired
              | Exited returncode \<Rightarrow> Inr d))"

definition STUB_FLAGS_FILE :: string where
  "STUB_FLAGS_FILE = ''out/soong/hiddenapi/hiddenapi-stub-flags.txt''"

definition FLAGS_FILE :: string where
  "FLAGS_FILE = ''out/soong/hiddenapi/hiddenapi-flags.csv''"

definition build_monolithic_stubs_flags ::
  "world \<Rightarrow> BcpfAnalyzer \<Rightarrow> error + flag_diffs option" where
  "build_monolithic_stubs_flags w an = build_hiddenapi_flags w an STUB_FLAGS_FILE"

definition load_module_info :: "world \<Rightarrow> BcpfAnalyzer \<Rightarrow> error + BcpfAnalyzer" where
  "load_module_info w an =
     (let module_info_file = path_join (product_out_dir an) ''module-info.json'';
          output = build_file_read_output w an module_info_file
      in case popen_wait output of
           TimedOut \<Rightarrow> Inl TimeoutExpired
         | Exited returncode \<Rightarrow>
             if returncode \<noteq> 0
             then Inl (Exception (''Error building '' @ module_info_file))
             else (case json_load w (path_join (top_dir an) module_info_file) of
                     Inl e \<Rightarrow> Inl e
                   | Inr j \<Rightarrow> Inr (an\<lparr>module_info := Some j\<rparr>)))"

section \<open>The signature catalog\<close>

definition signatures :: "BcpfAnalyzer \<Rightarrow> error + string set" where
  "signatures an =
     (if signatures_attr an = {}
      then Inl (Exception ''signatures has not been initialized'')
      else Inr (signatures_attr an))"

definition classes :: "BcpfAnalyzer \<Rightarrow> error + string set" where
  "classes an =
     (if classes_attr an = {}
      then Inl (Exception ''classes has not been initialized'')
      else Inr (classes_attr an))"

definition line_to_signature :: "string \<Rightarrow> string" where
  "line_to_signature line = hd (py_split line '','')"

definition signature_to_class :: "string \<Rightarrow> string" where
  "signature_to_class signature = hd (py_split signature '';->'')"

definition find_bootclasspath_fragment_output_file ::
  "world \<Rightarrow> BcpfAnalyzer \<Rightarrow> string \<Rightarrow> error + string" where
  "find_bootclasspath_fragment_output_file w an basename =
     (case module_out_dir an (bcpf an) of
        Inl e \<Rightarrow> Inl e
      | Inr bcpf_out_dir \<Rightarrow>
          (let found_file =
                 foldl (\<lambda>found (dirpath, filenames).
                          if basename \<in> set filenames then path_join dirpath basename
                          else found)
                   [] (os_walk w bcpf_out_dir)
           in if found_file = []
              then Inl (Exception (''Could not find '' @ basename @ '' in '' @ bcpf_out_dir))
              else Inr found_file))"

text \<open>The body of the loop of \<^verbatim>\<open>load_all_flags\<close>, and the function.\<close>

definition add_flags_line :: "BcpfAnalyzer \<Rightarrow> string \<Rightarrow> BcpfAnalyzer" where
  "add_flags_line an line =
     (let signature = line_to_signature line;
          class_name = signature_to_class signature
      in an\<lparr>signatures_attr := insert signature (signatures_attr an),
            classes_attr := insert class_name (classes_attr an)\<rparr>)"

definition load_all_flags :: "world \<Rightarrow> BcpfAnalyzer \<Rightarrow> error + BcpfAnalyzer" where
  "load_all_flags w an =
     (case find_bootclasspath_fragment_output_file w an ''all-flags.csv'' of
        Inl e \<Rightarrow> Inl e
      | Inr all_flags \<Rightarrow>
          (case open_lines w all_flags of
             Inl e \<Rightarrow> Inl e
           | Inr lines \<Rightarrow> Inr (foldl add_flags_line an lines)))"

section \<open>The change plan\<close>

record FileChange =
  path :: string
  description :: string

text \<open>\<^verbatim>\<open>FileChange.__lt__\<close>, on the order of strings (that of their characters' codes).\<close>

definition FileChange_lt :: "FileChange \<Rightarrow> FileChange \<Rightarrow> bool" where
  "FileChange_lt a b = (path a < path b)"

record HiddenApiPropertyChange =
  property_name :: string
  property_values :: "string list"
  property_comment :: string

record Result =
  diffs :: "flag_diffs option"
  property_changes :: "HiddenApiPropertyChange list"
  file_changes :: "FileChange list"

definition new_Result :: Result where
  "new_Result = \<lparr>diffs = None, property_changes = [], file_changes = []\<rparr>"

text \<open>
  \<^verbatim>\<open>list.sort()\<close> compares with \<^verbatim>\<open>__lt__\<close> only and is stable. The model is the
  stable insertion sort on a less-than test: an element is put before the first
  element of the sorted rest that is not less than it.
\<close>

fun insert_lt :: "('a \<Rightarrow> 'a \<Rightarrow> bool) \<Rightarrow> 'a \<Rightarrow> 'a list \<Rightarrow> 'a list" where
  "insert_lt lt x [] = [x]"
| "insert_lt lt x (y # ys) = (if lt y x then y # insert_lt lt x ys else x # y # ys)"

definition list_sort :: "('a \<Rightarrow> 'a \<Rightarrow> bool) \<Rightarrow> 'a list \<Rightarrow> 'a list" where
  "list_sort lt xs = foldr (insert_lt lt) xs []"

definition new_file_change :: "world \<Rightarrow> BcpfAnalyzer \<Rightarrow> string \<Rightarrow> string \<Rightarrow> FileChange" where
  "new_file_change w an file descr =
     \<lparr>path = os_path_relpath w file (top_dir an), description = descr\<rparr>"

subsection \<open>Rendering a property change\<close>

definition format_comment_as_lines :: "world \<Rightarrow> string \<Rightarrow> string \<Rightarrow> string list" where
  "format_comment_as_lines w txt indent =
     map (\<lambda>line. indent @ ''// '' @ line)
       (textwrap_wrap w (strip_newlines txt) (77 - int (length indent)))"

definition format_comment_as_text :: "world \<Rightarrow> string \<Rightarrow> string \<Rightarrow> string" where
  "format_comment_as_text w txt indent =
     concat (map (\<lambda>line. line @ NL) (format_comment_as_lines w txt indent))"

definition snippet :: "world \<Rightarrow> HiddenApiPropertyChange \<Rightarrow> string \<Rightarrow> string" where
  "snippet w pc indent =
     NL @ format_comment_as_text w (property_comment pc) indent
        @ indent @ property_name pc @ '': [''
        @ (if property_values pc \<noteq> []
           then NL @ concat (map (\<lambda>v. indent @ ''    '' @ DQ @ v @ DQ @ '','' @ NL)
                               (property_values pc))
                   @ indent
           else [])
        @ ''],'' @ NL"

section \<open>Scanning the override files\<close>

text \<open>
  The loop of \<^verbatim>\<open>report_hidden_api_flag_file_changes\<close> over the lines of the flags
  file; the property \<^verbatim>\<open>self.signatures\<close> is read at every line.
\<close>

fun match_signatures ::
  "BcpfAnalyzer \<Rightarrow> string set \<Rightarrow> string list \<Rightarrow> error + string set" where
  "match_signatures an matched_signatures [] = Inr matched_signatures"
| "match_signatures an matched_signatures (signature # rest) =
     (case signatures an of
        Inl e \<Rightarrow> Inl e
      | Inr sigs \<Rightarrow>
          match_signatures an
            (if signature \<in> sigs then insert signature matched_signatures
             else matched_signatures)
            rest)"

definition report_hidden_api_flag_file_changes ::
  "world \<Rightarrow> BcpfAnalyzer \<Rightarrow> Result \<Rightarrow> string \<Rightarrow> string \<Rightarrow> string \<Rightarrow> string
     \<Rightarrow> error + Result" where
  "report_hidden_api_flag_file_changes w an result prop_name flags_file
       rel_bcpf_flags_file bcpf_flags_file =
     (case open_lines w flags_file of
        Inl e \<Rightarrow> Inl e
      | Inr lines \<Rightarrow>
          (case match_signatures an {} lines of
             Inl e \<Rightarrow> Inl e
           | Inr matched_signatures \<Rightarrow>
               if matched_signatures \<noteq> {}
               then (let ins = textwrap_indent
                                 (py_join NL (set_iter w matched_signatures))
                                 ''            ''
                     in Inr (result
                          \<lparr>file_changes := file_changes result @
                             [new_file_change w an flags_file
                                (''Remove the following entries:'' @ NL @ ins @ NL),
                              new_file_change w an bcpf_flags_file
                                (''Add the following entries:'' @ NL @ ins @ NL)],
                           property_changes := property_changes result @
                             [\<lparr>property_name = prop_name,
                               property_values = [rel_bcpf_flags_file],
                               property_comment = []\<rparr>]\<rparr>))
               else Inr result))"

text \<open>
  The names \<^verbatim>\<open>check_frameworks_base_boot_hidden_api_files\<close> derives from a
  basename: the remapped basename, the property name and the file relative to the
  fragment's directory.
\<close>

definition bcpf_basename :: "string \<Rightarrow> string" where
  "bcpf_basename basename =
     (if basename = ''hiddenapi-max-target-o.txt''
      then ''hiddenapi-max-target-o-low-priority.txt''
      else if basename = ''hiddenapi-max-target-r-loprio.txt''
      then ''hiddenapi-max-target-r-low-priority.txt''
      else basename)"

definition property_name_of :: "string \<Rightarrow> string" where
  "property_name_of basename =
     replace_char (removesuffix (removeprefix basename ''hiddenapi-'') ''.txt'')
       (CHR ''-'') (CHR ''_'')"

definition rel_bcpf_flags_file_of :: "string \<Rightarrow> string" where
  "rel_bcpf_flags_file_of basename = ''hiddenapi/'' @ basename"

fun check_hidden_api_files ::
  "world \<Rightarrow> BcpfAnalyzer \<Rightarrow> string \<Rightarrow> Result \<Rightarrow> string list \<Rightarrow> error + Result" where
  "check_hidden_api_files w an hiddenapi_dir result [] = Inr result"
| "check_hidden_api_files w an hiddenapi_dir result (basename # rest) =
     (if \<not> (startswith basename ''hiddenapi-'' \<and> endswith basename ''.txt'')
      then check_hidden_api_files w an hiddenapi_dir result rest
      else (let flags_file = path_join hiddenapi_dir basename;
                basename' = bcpf_basename basename;
                prop_name = property_name_of basename';
                rel_bcpf_flags_file = rel_bcpf_flags_file_of basename'
            in case module_path an (bcpf an) of
                 Inl e \<Rightarrow> Inl e
               | Inr bcpf_dir \<Rightarrow>
                   (let bcpf_flags_file =
                          path_join (path_join (top_dir an) bcpf_dir) rel_bcpf_flags_file
                    in case report_hidden_api_flag_file_changes w an result prop_name
                              flags_file rel_bcpf_flags_file bcpf_flags_file of
                         Inl e \<Rightarrow> Inl e
                       | Inr result' \<Rightarrow>
                           check_hidden_api_files w an hiddenapi_dir result' rest)))"

definition check_frameworks_base_boot_hidden_api_files ::
  "world \<Rightarrow> BcpfAnalyzer \<Rightarrow> Result \<Rightarrow> error + Result" where
  "check_frameworks_base_boot_hidden_api_files w an result =
     (let hiddenapi_dir = path_join (top_dir an) ''frameworks/base/boot/hiddenapi''
      in case os_listdir w hiddenapi_dir of
           Inl e \<Rightarrow> Inl e
         | Inr names \<Rightarrow> check_hidden_api_files w an hiddenapi_dir result (sort names))"

section \<open>The analysis\<close>

text \<open>Truth of \<^verbatim>\<open>result.diffs\<close>: neither None nor an empty dict.\<close>

definition diffs_truthy :: "flag_diffs option \<Rightarrow> bool" where
  "diffs_truthy d = (case d of None \<Rightarrow> False | Some m \<Rightarrow> m \<noteq> [])"

definition build_monolithic_flags ::
  "world \<Rightarrow> BcpfAnalyzer \<Rightarrow> Result \<Rightarrow> error + (BcpfAnalyzer \<times> Result)" where
  "build_monolithic_flags w an result =
     (case build_hiddenapi_flags w an FLAGS_FILE of
        Inl e \<Rightarrow> Inl e
      | Inr d \<Rightarrow>
          (let result1 = result\<lparr>diffs := d\<rparr>
           in case load_all_flags w an of
                Inl e \<Rightarrow> Inl e
              | Inr an' \<Rightarrow>
                  if diffs_truthy (diffs result1)
                  then (case check_frameworks_base_boot_hidden_api_files w an' result1 of
                          Inl e \<Rightarrow> Inl e
                        | Inr result2 \<Rightarrow> Inr (an', result2))
                  else Inr (an', result1)))"

text \<open>
  The part of \<^verbatim>\<open>analyze\<close> that turns the property changes into the file change of
  the fragment's Android.bp.
\<close>

definition android_bp_change :: "world \<Rightarrow> BcpfAnalyzer \<Rightarrow> Result \<Rightarrow> error + Result" where
  "android_bp_change w an result =
     (if property_changes result \<noteq> []
      then (case module_path an (bcpf an) of
              Inl e \<Rightarrow> Inl e
            | Inr bcpf_dir \<Rightarrow>
                (let bcpf_bp_file = path_join (path_join (top_dir an) bcpf_dir) ''Android.bp'';
                     hiddenapi_snippet =
                       strip_newlines
                         (concat (map (\<lambda>pc. snippet w pc ''        '')
                                    (property_changes result)))
                 in Inr (result\<lparr>file_changes := file_changes result @
                      [new_file_change w an bcpf_bp_file
                         (NL @ ''Add the following snippet into the '' @ bcpf an
                             @ '' bootclasspath_fragment module'' @ NL
                             @ ''in the '' @ bcpf_dir
                             @ ''/Android.bp file. If the hidden_api block already exists then''
                             @ NL @ ''merge these properties into it.'' @ NL @ NL
                             @ ''    hidden_api: {'' @ NL
                             @ hiddenapi_snippet @ NL
                             @ ''    },'' @ NL)]\<rparr>)))
      else Inr result)"

text \<open>
  The plan as \<^verbatim>\<open>analyze\<close> has it before it sorts and reports the file changes.
  The arguments of the two \<^verbatim>\<open>shutil.rmtree\<close> calls are evaluated (the second can
  raise); what they delete is not modelled.
\<close>

definition analyze_plan :: "world \<Rightarrow> BcpfAnalyzer \<Rightarrow> error + Result" where
  "analyze_plan w an =
     (case load_module_info w an of
        Inl e \<Rightarrow> Inl e
      | Inr an1 \<Rightarrow>
          (case module_out_dir an1 (bcpf an1) of
             Inl e \<Rightarrow> Inl e
           | Inr _ \<Rightarrow>
               (case build_monolithic_stubs_flags w an1 of
                  Inl e \<Rightarrow> Inl e
                | Inr _ \<Rightarrow>
                    (case build_monolithic_flags w an1 new_Result of
                       Inl e \<Rightarrow> Inl e
                     | Inr (an2, result) \<Rightarrow> android_bp_change w an2 result))))"

text \<open>
  \<^verbatim>\<open>analyze\<close>: the file changes in the order in which they are reported, after
  \<^verbatim>\<open>result.file_changes.sort()\<close>.
\<close>

definition analyze :: "world \<Rightarrow> BcpfAnalyzer \<Rightarrow> error + FileChange list" where
  "analyze w an =
     (case analyze_plan w an of
        Inl e \<Rightarrow> Inl e
      | Inr result \<Rightarrow>
          if file_changes result \<noteq> []
          then Inr (list_sort FileChange_lt (file_changes result))
          else Inr [])"

section \<open>Well-formed report lines\<close>

text \<open>
  The three lines the build writes for one signature with inconsistent flags, from
  the signature, the flags of the fragment and the flags of the platform; \<open>sep\<close> is
  the third line. An entry is well formed when no comma stands inside a signature
  or a flag.
\<close>

definition entry_lines :: "string \<times> string list \<times> string list \<Rightarrow> string \<Rightarrow> string list" where
  "entry_lines e sep =
     (case e of (sg, module_flags, monolithic_flags) \<Rightarrow>
        [''< '' @ py_join '','' (sg # module_flags),
         ''> '' @ py_join '','' (sg # monolithic_flags),
         sep])"

definition comma_free :: "string \<Rightarrow> bool" where
  "comma_free s = (CHR '','' \<notin> set s)"

definition entry_wf :: "string \<times> string list \<times> string list \<Rightarrow> bool" where
  "entry_wf e =
     (case e of (sg, module_flags, monolithic_flags) \<Rightarrow>
        list_all comma_free (sg # module_flags @ monolithic_flags))"

text \<open>The dict entry of a triple: the signature and the pair of flag lists.\<close>

definition diff_entry ::
  "string \<times> string list \<times> string list \<Rightarrow> string \<times> (string list \<times> string list)" where
  "diff_entry e = (case e of (sg, module_flags, monolithic_flags) \<Rightarrow>
                     (sg, (module_flags, monolithic_flags)))"

text \<open>
  A malformed triple, in the words of the specification: a wrong prefix on either
  line, or two different signatures (field 0 after the prefix, split on commas).
\<close>

definition triple_malformed :: "string \<Rightarrow> string \<Rightarrow> bool" where
  "triple_malformed module_line monolithic_line =
     (\<not> startswith module_line ''< '' \<or> \<not> startswith monolithic_line ''> ''
      \<or> hd (py_split (removeprefix module_line ''< '') '','')
          \<noteq> hd (py_split (removeprefix monolithic_line ''> '') '',''))"

section \<open>Iterating a set, and the entries a description lists\<close>

text \<open>
  What Python guarantees of the iteration of a set: every element of a finite set is
  visited, once.
\<close>

definition set_iter_ok :: "world \<Rightarrow> bool" where
  "set_iter_ok w =
     (\<forall>S. finite S \<longrightarrow> set (set_iter w S) = S \<and> distinct (set_iter w S))"

text \<open>
  A line that \<^verbatim>\<open>textwrap.indent\<close> prefixes and does not cut: it is not white space
  only and holds no line break.
\<close>

definition plain_line :: "string \<Rightarrow> bool" where
  "plain_line s = (\<not> list_all is_space s \<and> list_all (\<lambda>c. \<not> is_linebreak c) s)"

text \<open>
  The entries that the description of a file change lists, read off its text: the
  lines after the first, up to the final line end, without the indentation of twelve
  spaces.
\<close>

definition listed_entries :: "string \<Rightarrow> string list" where
  "listed_entries descr =
     map (\<lambda>line. removeprefix line ''            '') (butlast (tl (py_split descr NL)))"

section \<open>An example fragment and build\<close>

text \<open>
  A fragment \<^verbatim>\<open>mybcpf\<close> defined in \<^verbatim>\<open>packages/modules/My\<close> of a checkout at
  \<^verbatim>\<open>/src/\<close>, and a world around it: the build of the flags file writes the given
  lines and exits with the given status, every other build succeeds; the fragment's
  all-flags.csv lists two members of \<^verbatim>\<open>Lacme/Foo\<close>; the override directory holds
  three flag files and a README. A path is made relative by dropping the checkout's
  directory from its front, a comment is wrapped into one line, and a set is iterated
  in the order of its elements.
\<close>

definition ex_new_analyzer :: BcpfAnalyzer where
  "ex_new_analyzer =
     new_BcpfAnalyzer ''/src/'' ''/src/out'' ''out/target/product/generic''
       ''mybcpf'' ''com.android.my'' ''my-sdk''"

definition ex_module_info :: ModuleInfo where
  "ex_module_info = [''mybcpf'' \<mapsto> [''packages/modules/My'']]"

definition ex_analyzer :: BcpfAnalyzer where
  "ex_analyzer = ex_new_analyzer\<lparr>module_info := Some ex_module_info\<rparr>"

text \<open>The analyzer once \<^verbatim>\<open>load_all_flags\<close> has read the example's all-flags.csv.\<close>

definition ex_loaded_analyzer :: BcpfAnalyzer where
  "ex_loaded_analyzer =
     ex_analyzer\<lparr>signatures_attr := {''Lacme/Foo;->a()V'', ''Lacme/Foo;->c()V''},
                  classes_attr := {''Lacme/Foo''}\<rparr>"

definition ex_all_flags_file :: string where
  "ex_all_flags_file =
     ''/src/out/soong/.intermediates/packages/modules/My/mybcpf/android_common/modular-hiddenapi/all-flags.csv''"

definition ex_world :: "string list \<Rightarrow> int \<Rightarrow> world" where
  "ex_world flags_output returncode =
     \<lparr>soong_ui = (\<lambda>target.
         if target = FLAGS_FILE
         then \<lparr>stdout_lines = flags_output, popen_wait = Exited returncode\<rparr>
         else \<lparr>stdout_lines = [''#### build completed successfully ####''],
               popen_wait = Exited 0\<rparr>),
      json_load = (\<lambda>file. Inr ex_module_info),
      os_walk = (\<lambda>d. [(d, []),
                       (d @ ''/android_common/modular-hiddenapi'', [''all-flags.csv''])]),
      os_listdir = (\<lambda>d. Inr [''hiddenapi-unsupported.txt'', ''README.md'',
                             ''hiddenapi-max-target-r-loprio.txt'',
                             ''hiddenapi-max-target-o.txt'']),
      open_lines = (\<lambda>file.
         if file = ex_all_flags_file
         then Inr [''Lacme/Foo;->a()V,blocked'', ''Lacme/Foo;->c()V,sdk'']
         else if file = ''/src/frameworks/base/boot/hiddenapi/hiddenapi-max-target-o.txt''
         then Inr [''Lacme/Foo;->c()V'', ''Lother/Bar;->b()V'', ''Lacme/Foo;->a()V'',
                   ''Lother/Baz;->d()V'']
         else if file = ''/src/frameworks/base/boot/hiddenapi/hiddenapi-max-target-r-loprio.txt''
         then Inr [''Lother/Bar;->b()V'', ''Lacme/Foo;->c()V'']
         else if file = ''/src/frameworks/base/boot/hiddenapi/hiddenapi-unsupported.txt''
         then Inr [''Lother/Bar;->b()V'']
         else Inl (Exception ''FileNotFoundError'')),
      os_path_relpath = (\<lambda>file start. removeprefix file start),
      textwrap_wrap = (\<lambda>txt width. if txt = [] then [] else [txt]),
      set_iter = sorted_list_of_set\<rparr>"

text \<open>
  Three build outputs. In the first the only report is about the fragment; in the
  second it is about another module; the third is the first cut off after the module
  line of its only signature.
\<close>

definition ex_significant_output :: "string list" where
  "ex_significant_output =
     [''FAILED: out/soong/hiddenapi/hiddenapi-flags.csv'',
      ''ERROR: Hidden API flags are inconsistent:'',
      ''< out/soong/.intermediates/packages/modules/My/mybcpf/android_common/modular-hiddenapi/filtered-flags.csv'',
      ''> out/soong/hiddenapi/hiddenapi-flags.csv'',
      [],
      ''< Lacme/Foo;->a()V,blocked'',
      ''> Lacme/Foo;->a()V,sdk,max-target-o'',
      ''ninja: build stopped: subcommand failed.'']"

definition ex_other_output :: "string list" where
  "ex_other_output =
     [''FAILED: out/soong/hiddenapi/hiddenapi-flags.csv'',
      ''ERROR: Hidden API flags are inconsistent:'',
      ''< out/soong/.intermediates/packages/modules/Other/otherbcpf/android_common/modular-hiddenapi/filtered-flags.csv'',
      ''> out/soong/hiddenapi/hiddenapi-flags.csv'',
      [],
      ''< Lother/Bar;->b()V,blocked'',
      ''> Lother/Bar;->b()V,sdk'',
      ''ninja: build stopped: subcommand failed.'']"

definition ex_truncated_output :: "string list" where
  "ex_truncated_output =
     [''FAILED: out/soong/hiddenapi/hiddenapi-flags.csv'',
      ''ERROR: Hidden API flags are inconsistent:'',
      ''< out/soong/.intermediates/packages/modules/My/mybcpf/android_common/modular-hiddenapi/filtered-flags.csv'',
      ''> out/soong/hiddenapi/hiddenapi-flags.csv'',
      [],
      ''< Lacme/Foo;->a()V,blocked'']"

section \<open>Facts about the string functions\<close>

lemma py_split_nonempty: "py_split s sep \<noteq> []"
  by (induction s sep rule: py_split.induct) (auto split: list.splits)

lemma py_split_comma_Cons:
  "py_split (c # cs) '','' =
     (if c = CHR '','' then [] # py_split cs '',''
      else (case py_split cs '','' of w # ws \<Rightarrow> (c # w) # ws | [] \<Rightarrow> [[c]]))"
  by (simp add: startswith_def)

lemma py_split_comma_field:
  "CHR '','' \<notin> set x \<Longrightarrow>
     py_split (x @ r) '','' = (x @ hd (py_split r '','')) # tl (py_split r '','')"
proof (induction x)
  case Nil
  then show ?case using py_split_nonempty [of r "'',''"] by simp
next
  case (Cons c x)
  then show ?case
    by (auto simp add: py_split_comma_Cons simp del: py_split.simps)
qed

lemma py_split_join_comma:
  "fs \<noteq> [] \<Longrightarrow> \<forall>f\<in>set fs. CHR '','' \<notin> set f \<Longrightarrow>
     py_split (py_join '','' fs) '','' = fs"
proof (induction "'',''" fs rule: py_join.induct)
  case 1
  then show ?case by simp
next
  case (2 x)
  then show ?case using py_split_comma_field [of x "[]"] by simp
next
  case (3 x y ys)
  then have "py_split (py_join '','' (y # ys)) '','' = y # ys" by simp
  moreover have "py_split (x @ '','' @ py_join '','' (y # ys)) '',''
      = (x @ hd (py_split ('','' @ py_join '','' (y # ys)) '','')) # tl (py_split ('','' @ py_join '','' (y # ys)) '','')"
    using 3 by (intro py_split_comma_field) simp
  ultimately show ?case by (simp add: py_split_comma_Cons del: py_split.simps)
qed

lemma py_split_char_Cons:
  "py_split (a # s) [c] =
     (if a = c then [] # py_split s [c]
      else (case py_split s [c] of w # ws \<Rightarrow> (a # w) # ws | [] \<Rightarrow> [[a]]))"
  by (simp add: startswith_def)

lemma py_split_char_line:
  "c \<notin> set x \<Longrightarrow> py_split (x @ c # r) [c] = x # py_split r [c]"
proof (induction x)
  case Nil
  then show ?case by (simp add: py_split_char_Cons del: py_split.simps)
next
  case (Cons a x)
  then show ?case by (auto simp add: py_split_char_Cons simp del: py_split.simps)
qed

lemma py_split_lines:
  "\<forall>l\<in>set ls. c \<notin> set l \<Longrightarrow>
     py_split (concat (map (\<lambda>l. l @ [c]) ls)) [c] = ls @ [[]]"
  by (induction ls) (simp_all add: py_split_char_line del: py_split.simps(2))

lemma splitlines_plain_char:
  "\<not> is_linebreak c \<Longrightarrow>
     splitlines_keepends cur (c # cs) = splitlines_keepends (cur @ [c]) cs"
  by (cases cs) (auto simp: is_linebreak_def)

lemma splitlines_line_feed:
  "splitlines_keepends cur (CHR 0x0A # cs) = (cur @ [CHR 0x0A]) # splitlines_keepends [] cs"
  by (cases cs) (auto simp: is_linebreak_def)

lemma splitlines_plain:
  "list_all (\<lambda>c. \<not> is_linebreak c) s \<Longrightarrow>
     splitlines_keepends cur (s @ r) = splitlines_keepends (cur @ s) r"
  by (induction s arbitrary: cur) (simp_all add: splitlines_plain_char del: splitlines_keepends.simps)

lemma plain_line_nonempty: "plain_line s \<Longrightarrow> s \<noteq> []"
  by (auto simp: plain_line_def)

lemma plain_line_no_line_feed: "plain_line s \<Longrightarrow> CHR 0x0A \<notin> set s"
  by (auto simp: plain_line_def list_all_iff is_linebreak_def)

lemma splitlines_join:
  "ms \<noteq> [] \<Longrightarrow> \<forall>s\<in>set ms. plain_line s \<Longrightarrow>
     splitlines_keepends [] (py_join NL ms) = map (\<lambda>s. s @ NL) (butlast ms) @ [last ms]"
proof (induction NL ms rule: py_join.induct)
  case 1
  then show ?case by simp
next
  case (2 x)
  then have "list_all (\<lambda>c. \<not> is_linebreak c) x" "x \<noteq> []"
    by (auto simp: plain_line_def)
  then show ?case using splitlines_plain [of x "[]" "[]"] by simp
next
  case (3 x y ys)
  then have x: "list_all (\<lambda>c. \<not> is_linebreak c) x"
    by (auto simp: plain_line_def)
  have "splitlines_keepends [] (x @ CHR 0x0A # py_join NL (y # ys))
          = (x @ [CHR 0x0A]) # splitlines_keepends [] (py_join NL (y # ys))"
    using splitlines_plain [OF x, of "[]"] by (simp add: splitlines_line_feed)
  with 3 show ?case by (simp add: NL_def)
qed

lemma indent_join:
  assumes "ms \<noteq> []" and "\<forall>s\<in>set ms. plain_line s"
  shows "textwrap_indent (py_join NL ms) p @ NL = concat (map (\<lambda>s. p @ s @ NL) ms)"
proof -
  let ?f = "\<lambda>line. if \<not> list_all is_space line then p @ line else line"
  have b: "map ?f (map (\<lambda>s. s @ NL) (butlast ms)) = map (\<lambda>s. p @ s @ NL) (butlast ms)"
    using assms(2) by (auto simp: plain_line_def dest: in_set_butlastD)
  have l: "?f (last ms) = p @ last ms"
    using assms by (auto simp: plain_line_def)
  have "textwrap_indent (py_join NL ms) p @ NL
          = concat (map (\<lambda>s. p @ s @ NL) (butlast ms)) @ p @ last ms @ NL"
    unfolding textwrap_indent_def splitlines_join [OF assms]
    by (simp only: map_append concat_append b l list.map concat.simps append_Nil2 append_assoc)
  also have "\<dots> = concat (map (\<lambda>s. p @ s @ NL) (butlast ms @ [last ms]))"
    by simp
  finally show ?thesis using assms(1) by simp
qed

lemma listed_entries_listing:
  assumes "\<forall>s\<in>set ms. plain_line s" and "CHR 0x0A \<notin> set hdr"
  shows "listed_entries (hdr @ NL @ concat (map (\<lambda>s. ''            '' @ s @ NL) ms)) = ms"
proof -
  let ?p = "''            ''"
  let ?X = "concat (map (\<lambda>l. l @ [CHR 0x0A]) (map (\<lambda>s. ?p @ s) ms))"
  have x: "hdr @ NL @ concat (map (\<lambda>s. ?p @ s @ NL) ms) = hdr @ CHR 0x0A # ?X"
    by (simp add: NL_def comp_def)
  have n: "\<forall>l\<in>set (map (\<lambda>s. ?p @ s) ms). CHR 0x0A \<notin> set l"
    using assms(1) by (auto dest: plain_line_no_line_feed)
  have "py_split (hdr @ CHR 0x0A # ?X) [CHR 0x0A] = hdr # py_split ?X [CHR 0x0A]"
    using assms(2) by (rule py_split_char_line)
  also have "py_split ?X [CHR 0x0A] = map (\<lambda>s. ?p @ s) ms @ [[]]"
    using n by (rule py_split_lines)
  finally have "py_split (hdr @ NL @ concat (map (\<lambda>s. ?p @ s @ NL) ms)) NL
                  = hdr # map (\<lambda>s. ?p @ s) ms @ [[]]"
    unfolding x by (simp only: NL_def)
  then show ?thesis
    unfolding listed_entries_def
    by (simp add: comp_def removeprefix_def startswith_def del: py_split.simps)
qed

section \<open>Facts about the parser\<close>

lemma while_marker:
  "build_hiddenapi_flags_while an d INCONSISTENT_FLAGS lines =
     (case scan_inconsistent_flags_report an lines of
        Inl e \<Rightarrow> Inl e
      | Inr (line', d', lines') \<Rightarrow> build_hiddenapi_flags_while an (Some d') line' lines')"
  by (subst build_hiddenapi_flags_while.simps) simp

lemma while_other:
  "line \<noteq> INCONSISTENT_FLAGS \<Longrightarrow>
     build_hiddenapi_flags_while an d line lines = build_hiddenapi_flags_for an d lines"
  by (subst build_hiddenapi_flags_while.simps) simp

lemma for_no_marker:
  "INCONSISTENT_FLAGS \<notin> set lines \<Longrightarrow> build_hiddenapi_flags_for an d lines = Inr d"
  by (induction lines) (auto simp: while_other)

lemma for_skips_preamble:
  "INCONSISTENT_FLAGS \<notin> set pre \<Longrightarrow>
     build_hiddenapi_flags_for an d (pre @ INCONSISTENT_FLAGS # rest)
       = build_hiddenapi_flags_while an d INCONSISTENT_FLAGS rest"
  by (induction pre) (auto simp: while_other)

lemma scan_triples_short:
  "length lines < 3 \<Longrightarrow> scan_triples sg d lines = Inr ([], d, [])"
  by (auto simp: numeral_3_eq_3 less_Suc_eq length_Suc_conv)

lemma scan_triples_significant:
  "scan_triples True d lines = scan_triples False d lines"
proof (induction lines arbitrary: d rule: length_induct)
  case (1 lines)
  show ?case
  proof (cases "length lines < 3")
    case True
    then show ?thesis by (simp add: scan_triples_short)
  next
    case False
    then obtain m p s rest where l: "lines = m # p # s # rest"
      by (cases lines; cases "tl lines"; cases "tl (tl lines)") auto
    show ?thesis unfolding l using 1
      by (auto simp: Let_def l check_inconsistent_flag_lines_def split: sum.splits)
  qed
qed

lemma scan_entry:
  assumes "entry_wf e"
  shows "scan_triples sg d (entry_lines e sep @ nxt) =
           (if sep \<noteq> [] then Inr (sep, AList.update (fst e) (snd (diff_entry e)) d, nxt)
            else scan_triples sg (AList.update (fst e) (snd (diff_entry e)) d) nxt)"
proof -
  obtain s mf pf where e: "e = (s, mf, pf)" by (cases e)
  from assms have m: "py_split (py_join '','' (s # mf)) '','' = s # mf"
    by (intro py_split_join_comma) (auto simp: e entry_wf_def comma_free_def list_all_iff)
  from assms have p: "py_split (py_join '','' (s # pf)) '','' = s # pf"
    by (intro py_split_join_comma) (auto simp: e entry_wf_def comma_free_def list_all_iff)
  show ?thesis
    by (simp add: e entry_lines_def diff_entry_def check_inconsistent_flag_lines_def
          startswith_def removeprefix_def m p Let_def del: py_join.simps)
qed

lemma scan_triples_append:
  "length ts mod 3 = 0 \<Longrightarrow> scan_triples sg d ts = Inr ([], d', []) \<Longrightarrow>
     scan_triples sg d (ts @ nxt) = scan_triples sg d' nxt"
proof (induction ts arbitrary: d rule: length_induct)
  case (1 ts)
  show ?case
  proof (cases ts)
    case Nil
    with 1 show ?thesis by simp
  next
    case (Cons m ts1)
    with "1.prems" obtain p s rest where l: "ts = m # p # s # rest"
      by (cases ts1; cases "tl ts1") auto
    from "1.prems"(1) have r: "length rest mod 3 = 0" by (simp add: l)
    from "1.prems"(2) have s: "s = []"
      by (auto simp: l Let_def split: sum.splits if_splits)
    from "1.prems"(2) obtain d1 where
      c: "check_inconsistent_flag_lines sg m p [] = Inr ()"
      and g: "hd (py_split (removeprefix m ''< '') '','') = hd (py_split (removeprefix p ''> '') '','')"
      and d1: "d1 = AList.update (hd (py_split (removeprefix m ''< '') '',''))
                 (tl (py_split (removeprefix m ''< '') '',''), tl (py_split (removeprefix p ''> '') '','')) d"
      and n: "scan_triples sg d1 rest = Inr ([], d', [])"
      by (auto simp: l s Let_def split: sum.splits if_splits)
    have "scan_triples sg d1 (rest @ nxt) = scan_triples sg d' nxt"
      using "1.IH" r n by (simp add: l)
    then show ?thesis
      by (simp add: l s c g d1 Let_def)
  qed
qed

lemma scan_triples_malformed:
  "triple_malformed m p \<Longrightarrow> scan_triples sg d (m # p # s # rest) = Inl (SystemExit 1)"
  by (auto simp: triple_malformed_def check_inconsistent_flag_lines_def Let_def)

lemma scan_entries:
  "list_all entry_wf es \<Longrightarrow>
     scan_triples sg d (concat (map (\<lambda>e. entry_lines e []) es) @ nxt)
       = scan_triples sg (foldl (\<lambda>d e. AList.update (fst e) (snd (diff_entry e)) d) d es) nxt"
proof (induction es arbitrary: d)
  case Nil
  then show ?case by simp
next
  case (Cons e es)
  then show ?case using scan_entry [of e sg d "[]"]
    by simp
qed

lemma foldl_update_fresh:
  "distinct (map fst es) \<Longrightarrow> fst ` set d \<inter> fst ` set es = {} \<Longrightarrow>
     foldl (\<lambda>d e. AList.update (fst e) (snd (diff_entry e)) d) d es = d @ map diff_entry es"
proof (induction es arbitrary: d)
  case Nil
  then show ?case by simp
next
  case (Cons e es)
  have u: "AList.update (fst e) (snd (diff_entry e)) d = d @ [diff_entry e]"
    using Cons.prems(2)
    by (induction d) (auto simp: diff_entry_def split: prod.splits)
  have "fst ` set (d @ [diff_entry e]) \<inter> fst ` set es = {}"
    using Cons.prems by (auto simp: diff_entry_def split: prod.splits)
  with Cons show ?case by (simp add: u)
qed

lemma scan_triples_any_significant:
  "scan_triples sg d lines = scan_triples sg' d lines"
  using scan_triples_significant [of d lines] by (cases sg; cases sg') simp_all

lemma report_append:
  assumes "length ts mod 3 = 0"
    and "scan_inconsistent_flags_report an (hm # hp # hs # ts) = Inr ([], d', [])"
  shows "scan_inconsistent_flags_report an (hm # hp # hs # ts @ nxt) = scan_triples sg d' nxt"
proof -
  from assms(2) obtain dir where
    mp: "module_path an (bcpf an) = Inr dir"
    and c: "check_inconsistent_flag_lines (contains hm (path_join dir (bcpf an))) hm hp hs = Inr ()"
    and t: "scan_triples (contains hm (path_join dir (bcpf an))) [] ts = Inr ([], d', [])"
    by (auto simp: scan_inconsistent_flags_report_def Let_def split: sum.splits)
  have "scan_triples (contains hm (path_join dir (bcpf an))) [] (ts @ nxt)
          = scan_triples (contains hm (path_join dir (bcpf an))) d' nxt"
    using assms(1) t by (rule scan_triples_append)
  then show ?thesis
    using scan_triples_any_significant [of _ d' nxt sg]
    by (simp add: scan_inconsistent_flags_report_def mp c Let_def)
qed

lemma marker_nonempty: "INCONSISTENT_FLAGS \<noteq> []"
  by (simp add: INCONSISTENT_FLAGS_def)

lemma report_significant_header:
  assumes "module_path an (bcpf an) = Inr dir"
    and "startswith hm ''< ''" and "startswith hp ''> ''"
  shows "scan_inconsistent_flags_report an (hm # hp # [] # body) = scan_triples sg [] body"
  using assms scan_triples_any_significant [of _ "[]" body sg]
  by (simp add: scan_inconsistent_flags_report_def check_inconsistent_flag_lines_def Let_def)

lemma scan_section:
  assumes "list_all entry_wf (es @ [e])"
    and "distinct (map fst (es @ [e]))"
    and "sep = [] \<longrightarrow> length post < 3"
  shows "scan_triples sg [] (concat (map (\<lambda>e. entry_lines e []) es) @ entry_lines e sep @ post)
           = Inr (sep, map diff_entry (es @ [e]), if sep = [] then [] else post)"
proof -
  let ?upd = "\<lambda>d e. AList.update (fst e) (snd (diff_entry e)) d"
  have f: "foldl ?upd [] (es @ [e]) = map diff_entry (es @ [e])"
    using foldl_update_fresh [OF assms(2), of "[]"] by simp
  have "scan_triples sg [] (concat (map (\<lambda>e. entry_lines e []) es) @ entry_lines e sep @ post)
          = scan_triples sg (foldl ?upd [] es) (entry_lines e sep @ post)"
    using assms(1) by (intro scan_entries) simp
  also have "\<dots> = Inr (sep, foldl ?upd [] (es @ [e]), if sep = [] then [] else post)"
    using assms(1,3) scan_entry [of e sg "foldl ?upd [] es" sep post]
    by (auto simp: scan_triples_short)
  finally show ?thesis by (simp only: f)
qed

section \<open>Evaluating the examples\<close>

lemmas ex_defs =
  ex_new_analyzer_def ex_module_info_def ex_analyzer_def ex_loaded_analyzer_def
  ex_all_flags_file_def ex_world_def
  ex_significant_output_def new_BcpfAnalyzer_def

lemmas parser_defs =
  build_hiddenapi_flags_def build_file_read_output_def build_hiddenapi_flags_while.simps
  scan_inconsistent_flags_report_def check_inconsistent_flag_lines_def
  module_path_def ModuleInfo_module_path_def path_join_def
  startswith_def endswith_def removeprefix_def
  INCONSISTENT_FLAGS_def FLAGS_FILE_def STUB_FLAGS_FILE_def Let_def

lemmas analysis_defs =
  analyze_def analyze_plan_def android_bp_change_def build_monolithic_flags_def
  build_monolithic_stubs_flags_def load_module_info_def load_all_flags_def
  find_bootclasspath_fragment_output_file_def module_out_dir_def add_flags_line_def
  line_to_signature_def signature_to_class_def signatures_def classes_def
  check_frameworks_base_boot_hidden_api_files_def report_hidden_api_flag_file_changes_def
  bcpf_basename_def property_name_of_def rel_bcpf_flags_file_of_def
  new_file_change_def new_Result_def diffs_truthy_def snippet_def
  format_comment_as_text_def format_comment_as_lines_def strip_newlines_def
  removesuffix_def replace_char_def NL_def DQ_def list_sort_def FileChange_lt_def

lemma ex_module_path: "module_path ex_analyzer (bcpf ex_analyzer) = Inr ''packages/modules/My''"
  by (simp add: ex_defs parser_defs)

section \<open>Claims about the report parser\<close>

text \<open>
  Claim C1 says that no entry of a report section whose header does not name the
  fragment's output directory appears in the dict that the parser returns. The code
  computes \<open>significant\<close> from the header and reports that it filters the section
  out, but only its debug logging depends on the flag: the entries of every section
  are stored, and the dict of the last section scanned is returned. On the build output
  \<open>ex_other_output\<close>, whose only report is about another module, the entry of that
  report is returned.
\<close>

theorem nonsignificant_section_entries_returned:
  "\<not> contains (ex_other_output ! 2) (path_join ''packages/modules/My'' ''mybcpf'')
   \<and> build_hiddenapi_flags (ex_world ex_other_output 1) ex_analyzer FLAGS_FILE
       = Inr (Some [(''Lother/Bar;->b()V'', ([''blocked''], [''sdk'']))])"
  by (simp add: ex_other_output_def ex_defs parser_defs)

text \<open>
  Claim C2 says that a stream that ends in the middle of a triple raises a structural
  error. Counterexample: on \<open>ex_truncated_output\<close>, which ends after the module line of
  a signature, the parser returns an empty dict and no error.
\<close>

theorem truncated_triple_ignored:
  "build_hiddenapi_flags (ex_world ex_truncated_output 1) ex_analyzer FLAGS_FILE
     = Inr (Some [])"
  by (simp add: ex_truncated_output_def ex_defs parser_defs)

text \<open>
  Claim C2 as amended: a stream that ends before the three lines of a section's header
  are read aborts the run with StopIteration; a stream that ends one or two lines after
  a complete triple raises nothing: the incomplete triple is dropped, and the scan
  returns what it returns without those lines.
\<close>

theorem truncated_stream:
  "(length lines < 3 \<longrightarrow>
      build_hiddenapi_flags_while an d INCONSISTENT_FLAGS lines = Inl StopIteration)
   \<and> (length ts mod 3 = 0 \<and> length partial < 3
        \<and> scan_inconsistent_flags_report an (hm # hp # hs # ts) = Inr ([], d', [])
      \<longrightarrow> scan_inconsistent_flags_report an (hm # hp # hs # ts @ partial) = Inr ([], d', [])
          \<and> build_hiddenapi_flags_while an d INCONSISTENT_FLAGS (hm # hp # hs # ts @ partial)
              = Inr (Some d'))"
proof (intro conjI impI)
  assume "length lines < 3"
  then have "scan_inconsistent_flags_report an lines = Inl StopIteration"
    by (auto simp: scan_inconsistent_flags_report_def numeral_3_eq_3 less_Suc_eq length_Suc_conv)
  then show "build_hiddenapi_flags_while an d INCONSISTENT_FLAGS lines = Inl StopIteration"
    by (simp add: while_marker)
next
  assume a: "length ts mod 3 = 0 \<and> length partial < 3
        \<and> scan_inconsistent_flags_report an (hm # hp # hs # ts) = Inr ([], d', [])"
  then have "scan_inconsistent_flags_report an (hm # hp # hs # ts @ partial)
               = scan_triples True d' partial"
    by (intro report_append) simp_all
  with a show r: "scan_inconsistent_flags_report an (hm # hp # hs # ts @ partial) = Inr ([], d', [])"
    by (simp add: scan_triples_short)
  show "build_hiddenapi_flags_while an d INCONSISTENT_FLAGS (hm # hp # hs # ts @ partial)
              = Inr (Some d')"
    using marker_nonempty by (simp add: while_marker r while_other)
qed

theorem truncated_stream_witness:
  "build_hiddenapi_flags_while ex_analyzer None INCONSISTENT_FLAGS
       [''< out/soong/.intermediates/packages/modules/My/mybcpf/filtered-flags.csv'']
     = Inl StopIteration
   \<and> build_hiddenapi_flags_while ex_analyzer None INCONSISTENT_FLAGS
       (''< out/soong/.intermediates/packages/modules/My/mybcpf/filtered-flags.csv''
        # ''> out/soong/hiddenapi/hiddenapi-flags.csv'' # []
        # [''< Lacme/Foo;->a()V,blocked'', ''> Lacme/Foo;->a()V,sdk'', []]
        @ [''< Lacme/Foo;->c()V,blocked'', ''> Lacme/Foo;->c()V,sdk''])
     = Inr (Some [(''Lacme/Foo;->a()V'', ([''blocked''], [''sdk'']))])"
proof -
  let ?hm = "''< out/soong/.intermediates/packages/modules/My/mybcpf/filtered-flags.csv''"
  let ?hp = "''> out/soong/hiddenapi/hiddenapi-flags.csv''"
  let ?ts = "[''< Lacme/Foo;->a()V,blocked'', ''> Lacme/Foo;->a()V,sdk'', []]"
  let ?partial = "[''< Lacme/Foo;->c()V,blocked'', ''> Lacme/Foo;->c()V,sdk'']"
  let ?d = "[(''Lacme/Foo;->a()V'', ([''blocked''], [''sdk'']))]"
  have h: "length ?ts mod 3 = 0 \<and> length ?partial < 3
        \<and> scan_inconsistent_flags_report ex_analyzer (?hm # ?hp # [] # ?ts) = Inr ([], ?d, [])"
    by (simp add: ex_defs parser_defs)
  have l: "length [?hm] < 3" by simp
  from truncated_stream [of "[?hm]" ex_analyzer None ?ts ?partial ?hm ?hp "[]" ?d] h l
  show ?thesis by blast
qed

text \<open>
  Claim C3: a malformed triple ends the run. A triple that the parser reaches after the
  header (every triple before it was scanned without error and had a blank third
  line) and that has a wrong prefix on its module or monolithic line, or two different
  signatures, makes both the scan of the report and the loop around it return
  \<^verbatim>\<open>sys.exit(1)\<close>, whatever follows the triple. A header triple with a wrong prefix
  on either line ends the run as well: with the same exit, or before it with the
  error of resolving the fragment's directory.
\<close>

theorem malformed_triple_is_fatal:
  "(length good mod 3 = 0
      \<and> scan_inconsistent_flags_report an (hm # hp # hs # good) = Inr ([], d', [])
      \<and> triple_malformed m p
    \<longrightarrow> scan_inconsistent_flags_report an (hm # hp # hs # good @ m # p # s # rest)
          = Inl (SystemExit 1)
        \<and> build_hiddenapi_flags_while an d INCONSISTENT_FLAGS
            (hm # hp # hs # good @ m # p # s # rest) = Inl (SystemExit 1))
   \<and> (\<not> startswith hm ''< '' \<or> \<not> startswith hp ''> ''
    \<longrightarrow> scan_inconsistent_flags_report an (hm # hp # hs # rest)
          = (case module_path an (bcpf an) of Inl e \<Rightarrow> Inl e | Inr dir \<Rightarrow> Inl (SystemExit 1)))"
proof (intro conjI impI)
  assume a: "length good mod 3 = 0
      \<and> scan_inconsistent_flags_report an (hm # hp # hs # good) = Inr ([], d', [])
      \<and> triple_malformed m p"
  then have "scan_inconsistent_flags_report an (hm # hp # hs # good @ m # p # s # rest)
          = scan_triples True d' (m # p # s # rest)"
    by (intro report_append) simp_all
  also have "\<dots> = Inl (SystemExit 1)"
    using a by (intro scan_triples_malformed) simp
  finally show r: "scan_inconsistent_flags_report an (hm # hp # hs # good @ m # p # s # rest)
          = Inl (SystemExit 1)" .
  show "build_hiddenapi_flags_while an d INCONSISTENT_FLAGS
            (hm # hp # hs # good @ m # p # s # rest) = Inl (SystemExit 1)"
    by (simp add: while_marker r)
next
  assume "\<not> startswith hm ''< '' \<or> \<not> startswith hp ''> ''"
  then show "scan_inconsistent_flags_report an (hm # hp # hs # rest)
          = (case module_path an (bcpf an) of Inl e \<Rightarrow> Inl e | Inr dir \<Rightarrow> Inl (SystemExit 1))"
    by (auto simp: scan_inconsistent_flags_report_def check_inconsistent_flag_lines_def Let_def
          split: sum.splits)
qed

theorem malformed_triple_is_fatal_witness:
  "scan_inconsistent_flags_report ex_analyzer
       (''< out/soong/.intermediates/packages/modules/My/mybcpf/filtered-flags.csv''
        # ''> out/soong/hiddenapi/hiddenapi-flags.csv'' # []
        # [''< Lacme/Foo;->a()V,blocked'', ''> Lacme/Foo;->a()V,sdk'', []]
        @ ''< Lacme/Foo;->c()V,blocked'' # ''Lacme/Foo;->c()V,sdk'' # [] # [])
     = Inl (SystemExit 1)
   \<and> build_hiddenapi_flags_while ex_analyzer None INCONSISTENT_FLAGS
       (''< out/soong/.intermediates/packages/modules/My/mybcpf/filtered-flags.csv''
        # ''> out/soong/hiddenapi/hiddenapi-flags.csv'' # []
        # [''< Lacme/Foo;->a()V,blocked'', ''> Lacme/Foo;->a()V,sdk'', []]
        @ ''< Lacme/Foo;->c()V,blocked'' # ''Lacme/Foo;->c()V,sdk'' # [] # [])
     = Inl (SystemExit 1)
   \<and> scan_inconsistent_flags_report ex_analyzer
       (''out/soong/.intermediates/packages/modules/My/mybcpf/filtered-flags.csv''
        # ''> out/soong/hiddenapi/hiddenapi-flags.csv'' # [] # [])
     = Inl (SystemExit 1)"
proof -
  let ?hm = "''< out/soong/.intermediates/packages/modules/My/mybcpf/filtered-flags.csv''"
  let ?hm' = "''out/soong/.intermediates/packages/modules/My/mybcpf/filtered-flags.csv''"
  let ?hp = "''> out/soong/hiddenapi/hiddenapi-flags.csv''"
  let ?good = "[''< Lacme/Foo;->a()V,blocked'', ''> Lacme/Foo;->a()V,sdk'', []]"
  let ?m = "''< Lacme/Foo;->c()V,blocked''"
  let ?p = "''Lacme/Foo;->c()V,sdk''"
  let ?d = "[(''Lacme/Foo;->a()V'', ([''blocked''], [''sdk'']))]"
  have h: "length ?good mod 3 = 0
      \<and> scan_inconsistent_flags_report ex_analyzer (?hm # ?hp # [] # ?good) = Inr ([], ?d, [])
      \<and> triple_malformed ?m ?p"
    by (simp add: ex_defs parser_defs triple_malformed_def)
  have g: "\<not> startswith ?hm' ''< '' \<or> \<not> startswith ?hp ''> ''"
    by (simp add: startswith_def)
  from malformed_triple_is_fatal [of ?good ex_analyzer ?hm ?hp "[]" ?d ?m ?p "[]" "[]" None] h
  have 1: "scan_inconsistent_flags_report ex_analyzer (?hm # ?hp # [] # ?good @ ?m # ?p # [] # [])
             = Inl (SystemExit 1)"
    and 2: "build_hiddenapi_flags_while ex_analyzer None INCONSISTENT_FLAGS
              (?hm # ?hp # [] # ?good @ ?m # ?p # [] # []) = Inl (SystemExit 1)"
    by simp_all
  from malformed_triple_is_fatal [of "[]" ex_analyzer ?hm' ?hp "[]" "[]" ?m ?p "[]" "[]" None] g
  have 3: "scan_inconsistent_flags_report ex_analyzer (?hm' # ?hp # [] # [])
             = Inl (SystemExit 1)"
    by (simp add: ex_module_path [simplified])
  from 1 2 3 show ?thesis by simp
qed

text \<open>
  Claim C5: in a build output with one report section whose header names the
  fragment's directory, where every triple after the header is written from a
  signature and two flag lists without commas, the signatures are distinct, every
  third line but the last is blank, and the last third line is either a line other
  than the marker followed only by such lines, or blank with fewer than three lines
  after it, the parser returns the dict with exactly one entry per triple: the
  signature mapped to the pair of its flag lists, each in the order of the input.
\<close>

theorem well_formed_section_entries:
  assumes "module_path an (bcpf an) = Inr dir"
    and "contains hm (path_join dir (bcpf an))"
    and "startswith hm ''< ''" and "startswith hp ''> ''"
    and "list_all entry_wf (es @ [e])"
    and "distinct (map fst (es @ [e]))"
    and "INCONSISTENT_FLAGS \<notin> set (pre @ sep # post)"
    and "sep = [] \<longrightarrow> length post < 3"
  shows "build_hiddenapi_flags_for an None
           (pre @ INCONSISTENT_FLAGS # hm # hp # []
              # concat (map (\<lambda>e. entry_lines e []) es) @ entry_lines e sep @ post)
         = Inr (Some (map diff_entry (es @ [e])))"
proof -
  let ?body = "concat (map (\<lambda>e. entry_lines e []) es) @ entry_lines e sep @ post"
  let ?post = "if sep = [] then [] else post"
  have "scan_inconsistent_flags_report an (hm # hp # [] # ?body) = scan_triples True [] ?body"
    using assms(1,3,4) by (rule report_significant_header)
  also have "\<dots> = Inr (sep, map diff_entry (es @ [e]), ?post)"
    using assms(5,6,8) by (rule scan_section)
  finally have r: "scan_inconsistent_flags_report an (hm # hp # [] # ?body)
                     = Inr (sep, map diff_entry (es @ [e]), ?post)" .
  have "build_hiddenapi_flags_for an None (pre @ INCONSISTENT_FLAGS # hm # hp # [] # ?body)
          = build_hiddenapi_flags_while an None INCONSISTENT_FLAGS (hm # hp # [] # ?body)"
    using assms(7) by (intro for_skips_preamble) simp
  also have "\<dots> = build_hiddenapi_flags_while an (Some (map diff_entry (es @ [e]))) sep ?post"
    by (simp only: while_marker r sum.case prod.case)
  also have "\<dots> = Inr (Some (map diff_entry (es @ [e])))"
  proof -
    from assms(7) have "sep \<noteq> INCONSISTENT_FLAGS" "INCONSISTENT_FLAGS \<notin> set ?post"
      by auto
    then show ?thesis
      using while_other [of sep an "Some (map diff_entry (es @ [e]))" ?post]
        for_no_marker [of ?post an "Some (map diff_entry (es @ [e]))"]
      by simp
  qed
  finally show ?thesis .
qed

theorem well_formed_section_entries_witness:
  "build_hiddenapi_flags_for ex_analyzer None ex_significant_output
     = Inr (Some [(''Lacme/Foo;->a()V'', ([''blocked''], [''sdk'', ''max-target-o'']))])"
proof -
  let ?hm = "''< out/soong/.intermediates/packages/modules/My/mybcpf/android_common/modular-hiddenapi/filtered-flags.csv''"
  let ?hp = "''> out/soong/hiddenapi/hiddenapi-flags.csv''"
  let ?e = "(''Lacme/Foo;->a()V'', [''blocked''], [''sdk'', ''max-target-o''])"
  let ?sep = "''ninja: build stopped: subcommand failed.''"
  let ?pre = "[''FAILED: out/soong/hiddenapi/hiddenapi-flags.csv'']"
  have s: "ex_significant_output
             = ?pre @ INCONSISTENT_FLAGS # ?hm # ?hp # []
                 # concat (map (\<lambda>e. entry_lines e []) []) @ entry_lines ?e ?sep @ []"
    by (simp add: ex_significant_output_def INCONSISTENT_FLAGS_def entry_lines_def)
  have h2: "contains ?hm (path_join ''packages/modules/My'' (bcpf ex_analyzer))"
    by (simp add: ex_defs path_join_def startswith_def endswith_def)
  have h3: "startswith ?hm ''< ''" and h4: "startswith ?hp ''> ''"
    by (simp_all add: startswith_def)
  have h5: "list_all entry_wf ([] @ [?e])"
    by (simp add: entry_wf_def comma_free_def)
  have h6: "distinct (map fst ([] @ [?e]))" by simp
  have h7: "INCONSISTENT_FLAGS \<notin> set (?pre @ ?sep # [])"
    by (simp add: INCONSISTENT_FLAGS_def)
  have h8: "?sep = [] \<longrightarrow> length ([] :: string list) < 3" by simp
  show ?thesis
    using well_formed_section_entries [OF ex_module_path h2 h3 h4 h5 h6 h7 h8]
    by (simp add: s diff_entry_def)
qed

section \<open>Facts about the catalog, the scanner and the sort\<close>

lemma foldl_add_flags_line:
  "foldl add_flags_line an lines
     = an\<lparr>signatures_attr := signatures_attr an \<union> line_to_signature ` set lines,
          classes_attr := classes_attr an
                            \<union> (\<lambda>l. signature_to_class (line_to_signature l)) ` set lines\<rparr>"
proof (induction lines arbitrary: an)
  case Nil
  then show ?case by simp
next
  case (Cons l ls)
  have step: "add_flags_line an l
      = an\<lparr>signatures_attr := insert (line_to_signature l) (signatures_attr an),
           classes_attr := insert (signature_to_class (line_to_signature l)) (classes_attr an)\<rparr>"
    by (simp add: add_flags_line_def Let_def)
  have "foldl add_flags_line an (l # ls) = foldl add_flags_line (add_flags_line an l) ls"
    by simp
  also note Cons [of "add_flags_line an l"]
  finally show ?case
    unfolding step by simp
qed

lemma load_all_flags_eq:
  assumes "find_bootclasspath_fragment_output_file w an ''all-flags.csv'' = Inr f"
    and "open_lines w f = Inr lines"
  shows "load_all_flags w an
     = Inr (an\<lparr>signatures_attr := signatures_attr an \<union> line_to_signature ` set lines,
          classes_attr := classes_attr an
                            \<union> (\<lambda>l. signature_to_class (line_to_signature l)) ` set lines\<rparr>)"
  using assms by (simp add: load_all_flags_def foldl_add_flags_line)

lemma find_output_file_catalog:
  "find_bootclasspath_fragment_output_file w (an\<lparr>signatures_attr := s, classes_attr := c\<rparr>) b
     = find_bootclasspath_fragment_output_file w an b"
  by (simp add: find_bootclasspath_fragment_output_file_def module_out_dir_def module_path_def
        cong: sum.case_cong option.case_cong)

lemma load_all_flags_twice:
  assumes "load_all_flags w an = Inr an'"
  shows "load_all_flags w an' = Inr an'"
proof -
  from assms obtain f lines where
    f: "find_bootclasspath_fragment_output_file w an ''all-flags.csv'' = Inr f"
    and l: "open_lines w f = Inr lines"
    by (auto simp: load_all_flags_def split: sum.splits)
  have an': "an' = an\<lparr>signatures_attr := signatures_attr an \<union> line_to_signature ` set lines,
          classes_attr := classes_attr an
                            \<union> (\<lambda>l. signature_to_class (line_to_signature l)) ` set lines\<rparr>"
    using assms load_all_flags_eq [OF f l] by simp
  have f': "find_bootclasspath_fragment_output_file w an' ''all-flags.csv'' = Inr f"
    unfolding an' using f by (simp add: find_output_file_catalog)
  show ?thesis
    using load_all_flags_eq [OF f' l] by (simp add: an' Un_assoc)
qed

lemma match_signatures_eq:
  "match_signatures an matched lines
     = (if lines \<noteq> [] \<and> signatures_attr an = {}
        then Inl (Exception ''signatures has not been initialized'')
        else Inr (matched \<union> (set lines \<inter> signatures_attr an)))"
  by (induction lines arbitrary: matched) (auto simp: signatures_def)

lemma report_changes_eq:
  assumes "open_lines w flags_file = Inr lines"
    and "matched = set lines \<inter> signatures_attr an"
    and "set_iter_ok w"
    and "\<forall>s\<in>matched. plain_line s"
  shows "report_hidden_api_flag_file_changes w an result pn flags_file rel bcpf_file
         = (if lines \<noteq> [] \<and> signatures_attr an = {}
            then Inl (Exception ''signatures has not been initialized'')
            else if matched = {} then Inr result
            else Inr (result
                   \<lparr>file_changes := file_changes result @
                      [\<lparr>path = os_path_relpath w flags_file (top_dir an),
                        description = ''Remove the following entries:'' @ NL
                          @ concat (map (\<lambda>s. ''            '' @ s @ NL) (set_iter w matched))\<rparr>,
                       \<lparr>path = os_path_relpath w bcpf_file (top_dir an),
                        description = ''Add the following entries:'' @ NL
                          @ concat (map (\<lambda>s. ''            '' @ s @ NL) (set_iter w matched))\<rparr>],
                    property_changes := property_changes result @
                      [\<lparr>property_name = pn, property_values = [rel],
                        property_comment = []\<rparr>]\<rparr>))"
proof (cases "matched = {}")
  case True
  with assms(1,2) show ?thesis
    by (simp add: report_hidden_api_flag_file_changes_def match_signatures_eq)
next
  case False
  have fin: "finite matched" using assms(2) by simp
  with assms(3) have it: "set (set_iter w matched) = matched"
    by (simp add: set_iter_ok_def)
  with False have ne: "set_iter w matched \<noteq> []" by auto
  have pl: "\<forall>s\<in>set (set_iter w matched). plain_line s"
    using assms(4) it by simp
  have ind: "textwrap_indent (py_join NL (set_iter w matched)) ''            '' @ NL
               = concat (map (\<lambda>s. ''            '' @ s @ NL) (set_iter w matched))"
    using ne pl by (rule indent_join)
  from False assms(2) have s: "signatures_attr an \<noteq> {}" by auto
  show ?thesis
    using assms(1) False s
    by (simp add: report_hidden_api_flag_file_changes_def match_signatures_eq Let_def
          new_file_change_def assms(2) [symmetric] ind del: append_assoc)
qed

lemma legacy_names:
  "bcpf_basename ''hiddenapi-max-target-o.txt'' = ''hiddenapi-max-target-o-low-priority.txt''"
  "bcpf_basename ''hiddenapi-max-target-r-loprio.txt''
     = ''hiddenapi-max-target-r-low-priority.txt''"
  "property_name_of ''hiddenapi-max-target-o-low-priority.txt'' = ''max_target_o_low_priority''"
  "property_name_of ''hiddenapi-max-target-r-low-priority.txt'' = ''max_target_r_low_priority''"
  "rel_bcpf_flags_file_of ''hiddenapi-max-target-o-low-priority.txt''
     = ''hiddenapi/hiddenapi-max-target-o-low-priority.txt''"
  "rel_bcpf_flags_file_of ''hiddenapi-max-target-r-low-priority.txt''
     = ''hiddenapi/hiddenapi-max-target-r-low-priority.txt''"
  by (simp_all add: bcpf_basename_def property_name_of_def rel_bcpf_flags_file_of_def
        removeprefix_def removesuffix_def startswith_def endswith_def replace_char_def)

lemma insert_lt_insort_key: "insert_lt FileChange_lt x ys = insort_key path x ys"
  by (induction ys) (auto simp: FileChange_lt_def)

lemma list_sort_sort_key: "list_sort FileChange_lt xs = sort_key path xs"
  by (induction xs) (simp_all add: list_sort_def insert_lt_insort_key)

lemma map_sort_key: "map f (sort_key f xs) = sort (map f xs)"
proof -
  have "mset (map f (sort_key f xs)) = mset (map f xs)" by simp
  moreover have "sorted (map f (sort_key f xs))" by (rule sorted_sort_key)
  ultimately show ?thesis by (rule properties_for_sort [symmetric])
qed

lemma analyze_sorted: "analyze_plan w an = Inr result \<Longrightarrow>
   analyze w an = Inr (list_sort FileChange_lt (file_changes result))"
  by (simp add: analyze_def list_sort_def)

lemma ex_plan:
  "map_sum id (\<lambda>r. map path (file_changes r))
     (analyze_plan (ex_world ex_significant_output rc) ex_new_analyzer)
   = Inr [''frameworks/base/boot/hiddenapi/hiddenapi-max-target-o.txt'',
          ''packages/modules/My/hiddenapi/hiddenapi-max-target-o-low-priority.txt'',
          ''frameworks/base/boot/hiddenapi/hiddenapi-max-target-r-loprio.txt'',
          ''packages/modules/My/hiddenapi/hiddenapi-max-target-r-low-priority.txt'',
          ''packages/modules/My/Android.bp'']"
  by (simp add: ex_defs parser_defs analysis_defs)

lemma ex_load_all_flags:
  "load_all_flags (ex_world out rc) ex_analyzer = Inr ex_loaded_analyzer"
  by (simp add: ex_defs parser_defs analysis_defs insert_commute)

section \<open>Claims about the build, the catalog and the change plan\<close>




text \<open>
  Claim C6: for an override file with the lines \<open>lines\<close>, with \<open>matched\<close> the set
  of those lines that are signatures of the catalog, in a world where iterating a set
  visits each element once, and with matched signatures that are lines of text (not
  blank, no line break inside). When \<open>matched\<close> is empty no change is produced (the
  result is returned as it was, or, when the file has a line and the catalog is empty,
  the property \<^verbatim>\<open>signatures\<close> raises). Otherwise exactly two file changes and one
  property change are appended: the first change has the path of the override file and
  the text "Remove the following entries:", the second the path of the fragment's
  file and the text "Add the following entries:", each followed by one indented line
  per matched signature; the property change names the fragment's file. The entries
  that each produced change lists are exactly the matched signatures, each once, so a
  signature that is not in the catalog is listed by none. With a catalog that is not
  empty the result is that for the file without the lines outside the catalog.
\<close>

theorem override_file_changes:
  assumes "open_lines w flags_file = Inr lines"
    and "set_iter_ok w"
    and "\<forall>s \<in> set lines \<inter> signatures_attr an. plain_line s"
  shows "report_hidden_api_flag_file_changes w an result pn flags_file rel bcpf_file
         = (if lines \<noteq> [] \<and> signatures_attr an = {}
            then Inl (Exception ''signatures has not been initialized'')
            else if set lines \<inter> signatures_attr an = {} then Inr result
            else Inr (result
                   \<lparr>file_changes := file_changes result @
                      [\<lparr>path = os_path_relpath w flags_file (top_dir an),
                        description = ''Remove the following entries:'' @ NL
                          @ concat (map (\<lambda>s. ''            '' @ s @ NL)
                                      (set_iter w (set lines \<inter> signatures_attr an)))\<rparr>,
                       \<lparr>path = os_path_relpath w bcpf_file (top_dir an),
                        description = ''Add the following entries:'' @ NL
                          @ concat (map (\<lambda>s. ''            '' @ s @ NL)
                                      (set_iter w (set lines \<inter> signatures_attr an)))\<rparr>],
                    property_changes := property_changes result @
                      [\<lparr>property_name = pn, property_values = [rel],
                        property_comment = []\<rparr>]\<rparr>))
       \<and> (\<forall>r. report_hidden_api_flag_file_changes w an result pn flags_file rel bcpf_file
                 = Inr r \<longrightarrow>
              (\<forall>fc \<in> set (drop (length (file_changes result)) (file_changes r)).
                  set (listed_entries (description fc)) = set lines \<inter> signatures_attr an
                \<and> distinct (listed_entries (description fc))))
       \<and> (signatures_attr an \<noteq> {} \<longrightarrow>
           report_hidden_api_flag_file_changes
             (w\<lparr>open_lines := (open_lines w)
                   (flags_file := Inr (filter (\<lambda>s. s \<in> signatures_attr an) lines))\<rparr>)
             an result pn flags_file rel bcpf_file
           = report_hidden_api_flag_file_changes w an result pn flags_file rel bcpf_file)"
proof (intro conjI allI impI ballI)
  let ?m = "set lines \<inter> signatures_attr an"
  let ?ms = "set_iter w ?m"
  note eq = report_changes_eq [OF assms(1) refl assms(2,3), of result pn rel bcpf_file]
  show "report_hidden_api_flag_file_changes w an result pn flags_file rel bcpf_file
         = (if lines \<noteq> [] \<and> signatures_attr an = {}
            then Inl (Exception ''signatures has not been initialized'')
            else if ?m = {} then Inr result
            else Inr (result
                   \<lparr>file_changes := file_changes result @
                      [\<lparr>path = os_path_relpath w flags_file (top_dir an),
                        description = ''Remove the following entries:'' @ NL
                          @ concat (map (\<lambda>s. ''            '' @ s @ NL) ?ms)\<rparr>,
                       \<lparr>path = os_path_relpath w bcpf_file (top_dir an),
                        description = ''Add the following entries:'' @ NL
                          @ concat (map (\<lambda>s. ''            '' @ s @ NL) ?ms)\<rparr>],
                    property_changes := property_changes result @
                      [\<lparr>property_name = pn, property_values = [rel],
                        property_comment = []\<rparr>]\<rparr>))"
    by (rule eq)
  have it: "set ?ms = ?m" "distinct ?ms"
    using assms(2) by (simp_all add: set_iter_ok_def)
  have pl: "\<forall>s\<in>set ?ms. plain_line s"
    using assms(3) it by simp
  have l1: "listed_entries (''Remove the following entries:'' @ NL
              @ concat (map (\<lambda>s. ''            '' @ s @ NL) ?ms)) = ?ms"
    using pl by (rule listed_entries_listing) simp
  have l2: "listed_entries (''Add the following entries:'' @ NL
              @ concat (map (\<lambda>s. ''            '' @ s @ NL) ?ms)) = ?ms"
    using pl by (rule listed_entries_listing) simp
  {
    fix r fc
    assume r: "report_hidden_api_flag_file_changes w an result pn flags_file rel bcpf_file
                 = Inr r"
      and fc: "fc \<in> set (drop (length (file_changes result)) (file_changes r))"
    from r fc have "description fc = ''Remove the following entries:'' @ NL
              @ concat (map (\<lambda>s. ''            '' @ s @ NL) ?ms)
        \<or> description fc = ''Add the following entries:'' @ NL
              @ concat (map (\<lambda>s. ''            '' @ s @ NL) ?ms)"
      unfolding eq by (auto split: if_splits)
    then have le: "listed_entries (description fc) = ?ms"
      using l1 l2 by auto
    show "set (listed_entries (description fc)) = ?m"
      using le it by simp
    show "distinct (listed_entries (description fc))"
      using le it by simp
  }
  assume n: "signatures_attr an \<noteq> {}"
  let ?kept = "filter (\<lambda>s. s \<in> signatures_attr an) lines"
  let ?w' = "w\<lparr>open_lines := (open_lines w)(flags_file := Inr ?kept)\<rparr>"
  have o: "open_lines ?w' flags_file = Inr ?kept"
    by simp
  have m: "?m = set ?kept \<inter> signatures_attr an"
    by auto
  have ok: "set_iter_ok ?w'"
    using assms(2) by (simp add: set_iter_ok_def)
  show "report_hidden_api_flag_file_changes ?w' an result pn flags_file rel bcpf_file
          = report_hidden_api_flag_file_changes w an result pn flags_file rel bcpf_file"
    unfolding eq report_changes_eq [OF o m ok assms(3)]
    using n by simp
qed

theorem override_file_changes_witness:
  "report_hidden_api_flag_file_changes (ex_world ex_significant_output 1) ex_loaded_analyzer
       new_Result ''max_target_o_low_priority''
       ''/src/frameworks/base/boot/hiddenapi/hiddenapi-max-target-o.txt''
       ''hiddenapi/hiddenapi-max-target-o-low-priority.txt''
       ''/src/packages/modules/My/hiddenapi/hiddenapi-max-target-o-low-priority.txt''
     = Inr \<lparr>diffs = None,
            property_changes =
              [\<lparr>property_name = ''max_target_o_low_priority'',
                property_values = [''hiddenapi/hiddenapi-max-target-o-low-priority.txt''],
                property_comment = []\<rparr>],
            file_changes =
              [\<lparr>path = ''frameworks/base/boot/hiddenapi/hiddenapi-max-target-o.txt'',
                description = ''Remove the following entries:'' @ NL
                              @ ''            Lacme/Foo;->a()V'' @ NL
                              @ ''            Lacme/Foo;->c()V'' @ NL\<rparr>,
               \<lparr>path = ''packages/modules/My/hiddenapi/hiddenapi-max-target-o-low-priority.txt'',
                description = ''Add the following entries:'' @ NL
                              @ ''            Lacme/Foo;->a()V'' @ NL
                              @ ''            Lacme/Foo;->c()V'' @ NL\<rparr>]\<rparr>
   \<and> set (listed_entries (''Remove the following entries:'' @ NL
                              @ ''            Lacme/Foo;->a()V'' @ NL
                              @ ''            Lacme/Foo;->c()V'' @ NL))
       = {''Lacme/Foo;->a()V'', ''Lacme/Foo;->c()V''}
   \<and> set (listed_entries (''Add the following entries:'' @ NL
                              @ ''            Lacme/Foo;->a()V'' @ NL
                              @ ''            Lacme/Foo;->c()V'' @ NL))
       = {''Lacme/Foo;->a()V'', ''Lacme/Foo;->c()V''}
   \<and> report_hidden_api_flag_file_changes
       ((ex_world ex_significant_output 1)
          \<lparr>open_lines := (open_lines (ex_world ex_significant_output 1))
             (''/src/frameworks/base/boot/hiddenapi/hiddenapi-max-target-o.txt''
                := Inr [''Lacme/Foo;->c()V'', ''Lacme/Foo;->a()V''])\<rparr>)
       ex_loaded_analyzer
       new_Result ''max_target_o_low_priority''
       ''/src/frameworks/base/boot/hiddenapi/hiddenapi-max-target-o.txt''
       ''hiddenapi/hiddenapi-max-target-o-low-priority.txt''
       ''/src/packages/modules/My/hiddenapi/hiddenapi-max-target-o-low-priority.txt''
     = report_hidden_api_flag_file_changes (ex_world ex_significant_output 1)
       ex_loaded_analyzer
       new_Result ''max_target_o_low_priority''
       ''/src/frameworks/base/boot/hiddenapi/hiddenapi-max-target-o.txt''
       ''hiddenapi/hiddenapi-max-target-o-low-priority.txt''
       ''/src/packages/modules/My/hiddenapi/hiddenapi-max-target-o-low-priority.txt''"
proof -
  let ?w = "ex_world ex_significant_output 1"
  let ?f = "''/src/frameworks/base/boot/hiddenapi/hiddenapi-max-target-o.txt''"
  let ?b = "''/src/packages/modules/My/hiddenapi/hiddenapi-max-target-o-low-priority.txt''"
  let ?lines = "[''Lacme/Foo;->c()V'', ''Lother/Bar;->b()V'', ''Lacme/Foo;->a()V'',
                 ''Lother/Baz;->d()V'']"
  let ?rm = "\<lparr>path = ''frameworks/base/boot/hiddenapi/hiddenapi-max-target-o.txt'',
                description = ''Remove the following entries:'' @ NL
                              @ ''            Lacme/Foo;->a()V'' @ NL
                              @ ''            Lacme/Foo;->c()V'' @ NL\<rparr>"
  let ?add = "\<lparr>path = ''packages/modules/My/hiddenapi/hiddenapi-max-target-o-low-priority.txt'',
                description = ''Add the following entries:'' @ NL
                              @ ''            Lacme/Foo;->a()V'' @ NL
                              @ ''            Lacme/Foo;->c()V'' @ NL\<rparr>"
  let ?r = "\<lparr>diffs = None,
            property_changes =
              [\<lparr>property_name = ''max_target_o_low_priority'',
                property_values = [''hiddenapi/hiddenapi-max-target-o-low-priority.txt''],
                property_comment = []\<rparr>],
            file_changes = [?rm, ?add]\<rparr>"
  have h1: "open_lines ?w ?f = Inr ?lines"
    by (simp add: ex_defs)
  have h2: "set_iter_ok ?w"
    by (simp add: set_iter_ok_def ex_world_def)
  have m: "set ?lines \<inter> signatures_attr ex_loaded_analyzer
             = {''Lacme/Foo;->a()V'', ''Lacme/Foo;->c()V''}"
    by (auto simp: ex_defs)
  have h3: "\<forall>s \<in> set ?lines \<inter> signatures_attr ex_loaded_analyzer. plain_line s"
    unfolding m by (simp add: plain_line_def is_space_def is_linebreak_def)
  have n: "signatures_attr ex_loaded_analyzer \<noteq> {}"
    by (simp add: ex_defs)
  have it: "set_iter ?w {''Lacme/Foo;->a()V'', ''Lacme/Foo;->c()V''}
              = [''Lacme/Foo;->a()V'', ''Lacme/Foo;->c()V'']"
    by (simp add: ex_world_def)
  have k: "filter (\<lambda>s. s \<in> signatures_attr ex_loaded_analyzer) ?lines
             = [''Lacme/Foo;->c()V'', ''Lacme/Foo;->a()V'']"
    by (simp add: ex_defs)
  note t = override_file_changes [OF h1 h2 h3, of new_Result
        "''max_target_o_low_priority''"
        "''hiddenapi/hiddenapi-max-target-o-low-priority.txt''" ?b]
  have a: "report_hidden_api_flag_file_changes ?w ex_loaded_analyzer
       new_Result ''max_target_o_low_priority'' ?f
       ''hiddenapi/hiddenapi-max-target-o-low-priority.txt'' ?b = Inr ?r"
    using n t [THEN conjunct1]
    unfolding m it
    by (simp add: ex_defs new_Result_def removeprefix_def startswith_def NL_def)
  have d: "drop (length (file_changes new_Result)) (file_changes ?r) = [?rm, ?add]"
    by (simp add: new_Result_def)
  from t [THEN conjunct2, THEN conjunct1, rule_format, OF a, of ?rm]
  have b1: "set (listed_entries (description ?rm))
              = {''Lacme/Foo;->a()V'', ''Lacme/Foo;->c()V''}"
    unfolding d m by simp
  from t [THEN conjunct2, THEN conjunct1, rule_format, OF a, of ?add]
  have b2: "set (listed_entries (description ?add))
              = {''Lacme/Foo;->a()V'', ''Lacme/Foo;->c()V''}"
    unfolding d m by simp
  from t [THEN conjunct2, THEN conjunct2] n have c: "report_hidden_api_flag_file_changes
       (?w\<lparr>open_lines := (open_lines ?w)
             (?f := Inr [''Lacme/Foo;->c()V'', ''Lacme/Foo;->a()V''])\<rparr>)
       ex_loaded_analyzer new_Result ''max_target_o_low_priority'' ?f
       ''hiddenapi/hiddenapi-max-target-o-low-priority.txt'' ?b
     = report_hidden_api_flag_file_changes ?w ex_loaded_analyzer
       new_Result ''max_target_o_low_priority'' ?f
       ''hiddenapi/hiddenapi-max-target-o-low-priority.txt'' ?b"
    unfolding k by blast
  from b1 b2 have b1': "set (listed_entries (''Remove the following entries:'' @ NL
                              @ ''            Lacme/Foo;->a()V'' @ NL
                              @ ''            Lacme/Foo;->c()V'' @ NL))
       = {''Lacme/Foo;->a()V'', ''Lacme/Foo;->c()V''}"
    and b2': "set (listed_entries (''Add the following entries:'' @ NL
                              @ ''            Lacme/Foo;->a()V'' @ NL
                              @ ''            Lacme/Foo;->c()V'' @ NL))
       = {''Lacme/Foo;->a()V'', ''Lacme/Foo;->c()V''}"
    by (simp_all only: FileChange.simps)
  from a b1' b2' c show ?thesis by (simp only: simp_thms)
qed

text \<open>
  Claim C7 says that a second population of the catalog is a fatal error.
  Counterexample: in the example world \<^verbatim>\<open>load_all_flags\<close> on the analyzer it has
  already populated returns normally.
\<close>

theorem second_population_no_error:
  "load_all_flags (ex_world ex_significant_output 1) ex_analyzer = Inr ex_loaded_analyzer
   \<and> load_all_flags (ex_world ex_significant_output 1) ex_loaded_analyzer
       = Inr ex_loaded_analyzer"
  by (simp add: ex_defs parser_defs analysis_defs insert_commute)

text \<open>
  Claim C7 as amended: on a new analyzer, and on one that has only loaded the module
  information, the properties \<^verbatim>\<open>signatures\<close> and \<^verbatim>\<open>classes\<close> raise "has not been
  initialized". A second population is not an error: \<^verbatim>\<open>load_all_flags\<close> called
  again on the analyzer that a first call returned succeeds and leaves it as it is.
\<close>

theorem catalog_population:
  "signatures (new_BcpfAnalyzer td od pd b a s)
     = Inl (Exception ''signatures has not been initialized'')
   \<and> classes (new_BcpfAnalyzer td od pd b a s)
     = Inl (Exception ''classes has not been initialized'')
   \<and> (load_module_info w (new_BcpfAnalyzer td od pd b a s) = Inr an1
      \<longrightarrow> signatures an1 = Inl (Exception ''signatures has not been initialized'')
          \<and> classes an1 = Inl (Exception ''classes has not been initialized''))
   \<and> (load_all_flags w an = Inr an' \<longrightarrow> load_all_flags w an' = Inr an')"
proof (intro conjI impI)
  assume "load_module_info w (new_BcpfAnalyzer td od pd b a s) = Inr an1"
  then have "signatures_attr an1 = {} \<and> classes_attr an1 = {}"
    by (auto simp: load_module_info_def new_BcpfAnalyzer_def Let_def
          split: wait_result.splits if_splits sum.splits)
  then show "signatures an1 = Inl (Exception ''signatures has not been initialized'')"
    and "classes an1 = Inl (Exception ''classes has not been initialized'')"
    by (simp_all add: signatures_def classes_def)
next
  assume "load_all_flags w an = Inr an'"
  then show "load_all_flags w an' = Inr an'" by (rule load_all_flags_twice)
qed (simp_all add: signatures_def classes_def new_BcpfAnalyzer_def)

theorem catalog_population_witness:
  "signatures ex_new_analyzer = Inl (Exception ''signatures has not been initialized'')
   \<and> classes ex_new_analyzer = Inl (Exception ''classes has not been initialized'')
   \<and> signatures ex_analyzer = Inl (Exception ''signatures has not been initialized'')
   \<and> classes ex_analyzer = Inl (Exception ''classes has not been initialized'')
   \<and> load_all_flags (ex_world ex_significant_output 1) ex_loaded_analyzer
       = Inr ex_loaded_analyzer"
proof -
  let ?w = "ex_world ex_significant_output 1"
  have m: "load_module_info ?w
             (new_BcpfAnalyzer ''/src/'' ''/src/out'' ''out/target/product/generic''
                ''mybcpf'' ''com.android.my'' ''my-sdk'') = Inr ex_analyzer"
    by (simp add: ex_defs parser_defs analysis_defs)
  have l: "load_all_flags ?w ex_analyzer = Inr ex_loaded_analyzer"
    by (rule ex_load_all_flags)
  from catalog_population [of "''/src/''" "''/src/out''" "''out/target/product/generic''"
      "''mybcpf''" "''com.android.my''" "''my-sdk''" ?w ex_analyzer ex_analyzer ex_loaded_analyzer]
    m l
  show ?thesis by (simp add: ex_new_analyzer_def)
qed

text \<open>
  Claim C8: for the override files \<^verbatim>\<open>hiddenapi-max-target-o.txt\<close> and
  \<^verbatim>\<open>hiddenapi-max-target-r-loprio.txt\<close> the scan is called with the property names
  \<^verbatim>\<open>max_target_o_low_priority\<close> and \<^verbatim>\<open>max_target_r_low_priority\<close> and with the
  fragment's files \<^verbatim>\<open>hiddenapi/hiddenapi-max-target-o-low-priority.txt\<close> and
  \<^verbatim>\<open>hiddenapi/hiddenapi-max-target-r-low-priority.txt\<close>, while the file that is read
  keeps its legacy name.
\<close>

theorem legacy_basename_remap:
  assumes "module_path an (bcpf an) = Inr bcpf_dir"
  shows "check_hidden_api_files w an hiddenapi_dir result (''hiddenapi-max-target-o.txt'' # rest)
         = (case report_hidden_api_flag_file_changes w an result
                   ''max_target_o_low_priority''
                   (path_join hiddenapi_dir ''hiddenapi-max-target-o.txt'')
                   ''hiddenapi/hiddenapi-max-target-o-low-priority.txt''
                   (path_join (path_join (top_dir an) bcpf_dir)
                      ''hiddenapi/hiddenapi-max-target-o-low-priority.txt'') of
              Inl e \<Rightarrow> Inl e
            | Inr result' \<Rightarrow> check_hidden_api_files w an hiddenapi_dir result' rest)
       \<and> check_hidden_api_files w an hiddenapi_dir result
           (''hiddenapi-max-target-r-loprio.txt'' # rest)
         = (case report_hidden_api_flag_file_changes w an result
                   ''max_target_r_low_priority''
                   (path_join hiddenapi_dir ''hiddenapi-max-target-r-loprio.txt'')
                   ''hiddenapi/hiddenapi-max-target-r-low-priority.txt''
                   (path_join (path_join (top_dir an) bcpf_dir)
                      ''hiddenapi/hiddenapi-max-target-r-low-priority.txt'') of
              Inl e \<Rightarrow> Inl e
            | Inr result' \<Rightarrow> check_hidden_api_files w an hiddenapi_dir result' rest)"
proof -
  have s: "startswith ''hiddenapi-max-target-o.txt'' ''hiddenapi-''"
    "endswith ''hiddenapi-max-target-o.txt'' ''.txt''"
    "startswith ''hiddenapi-max-target-r-loprio.txt'' ''hiddenapi-''"
    "endswith ''hiddenapi-max-target-r-loprio.txt'' ''.txt''"
    by (simp_all add: startswith_def endswith_def)
  show ?thesis
    by (simp add: s assms legacy_names Let_def)
qed

theorem legacy_basename_remap_witness:
  "map_sum id (\<lambda>r. (map property_name (property_changes r),
                     map property_values (property_changes r),
                     map path (file_changes r)))
     (check_hidden_api_files (ex_world ex_significant_output 1) ex_loaded_analyzer
        ''/src/frameworks/base/boot/hiddenapi'' new_Result
        [''hiddenapi-max-target-o.txt'', ''hiddenapi-max-target-r-loprio.txt''])
   = Inr ([''max_target_o_low_priority'', ''max_target_r_low_priority''],
          [[''hiddenapi/hiddenapi-max-target-o-low-priority.txt''],
           [''hiddenapi/hiddenapi-max-target-r-low-priority.txt'']],
          [''frameworks/base/boot/hiddenapi/hiddenapi-max-target-o.txt'',
           ''packages/modules/My/hiddenapi/hiddenapi-max-target-o-low-priority.txt'',
           ''frameworks/base/boot/hiddenapi/hiddenapi-max-target-r-loprio.txt'',
           ''packages/modules/My/hiddenapi/hiddenapi-max-target-r-low-priority.txt''])"
proof -
  have h: "module_path ex_loaded_analyzer (bcpf ex_loaded_analyzer) = Inr ''packages/modules/My''"
    by (simp add: ex_defs parser_defs)
  note r = legacy_basename_remap [OF h, of "ex_world ex_significant_output 1"
      "''/src/frameworks/base/boot/hiddenapi''"]
  show ?thesis
    unfolding r [THEN conjunct1] 
    by (simp add: r [THEN conjunct2] ex_defs parser_defs analysis_defs)
qed

text \<open>
  Claim C9: the file changes are reported in the order of \<^verbatim>\<open>list.sort()\<close> under
  \<^verbatim>\<open>FileChange.__lt__\<close>: sorted by path, a permutation of the accumulated changes,
  stable (changes with the same path keep their order), with the paths in the order
  of the sorted list of the accumulated paths; sorting again changes nothing.
\<close>

theorem file_changes_rendered_sorted:
  assumes "analyze_plan w an = Inr result"
  shows "analyze w an = Inr (list_sort FileChange_lt (file_changes result))
       \<and> sorted (map path (list_sort FileChange_lt (file_changes result)))
       \<and> mset (list_sort FileChange_lt (file_changes result)) = mset (file_changes result)
       \<and> (\<forall>p. filter (\<lambda>fc. path fc = p) (list_sort FileChange_lt (file_changes result))
                = filter (\<lambda>fc. path fc = p) (file_changes result))
       \<and> map path (list_sort FileChange_lt (file_changes result))
            = sort (map path (file_changes result))
       \<and> list_sort FileChange_lt (list_sort FileChange_lt (file_changes result))
            = list_sort FileChange_lt (file_changes result)"
proof -
  let ?fcs = "file_changes result"
  have 1: "analyze w an = Inr (list_sort FileChange_lt ?fcs)"
    using assms by (rule analyze_sorted)
  have 2: "sorted (map path (sort_key path ?fcs))" by (rule sorted_sort_key)
  have 3: "mset (sort_key path ?fcs) = mset ?fcs" by simp
  have 4: "\<forall>p. filter (\<lambda>fc. path fc = p) (sort_key path ?fcs) = filter (\<lambda>fc. path fc = p) ?fcs"
    by (simp add: sort_key_stable)
  have 5: "map path (sort_key path ?fcs) = sort (map path ?fcs)" by (rule map_sort_key)
  have 6: "sort_key path (sort_key path ?fcs) = sort_key path ?fcs"
    using 2 by (rule sort_key_id_if_sorted)
  from 1 2 3 4 5 6 show ?thesis by (simp only: list_sort_sort_key simp_thms)
qed

theorem file_changes_rendered_sorted_witness:
  "map_sum id (map path) (analyze (ex_world ex_significant_output 1) ex_new_analyzer)
   = Inr [''frameworks/base/boot/hiddenapi/hiddenapi-max-target-o.txt'',
          ''frameworks/base/boot/hiddenapi/hiddenapi-max-target-r-loprio.txt'',
          ''packages/modules/My/Android.bp'',
          ''packages/modules/My/hiddenapi/hiddenapi-max-target-o-low-priority.txt'',
          ''packages/modules/My/hiddenapi/hiddenapi-max-target-r-low-priority.txt'']"
proof -
  obtain result where
    r: "analyze_plan (ex_world ex_significant_output 1) ex_new_analyzer = Inr result"
    and p: "map path (file_changes result)
            = [''frameworks/base/boot/hiddenapi/hiddenapi-max-target-o.txt'',
               ''packages/modules/My/hiddenapi/hiddenapi-max-target-o-low-priority.txt'',
               ''frameworks/base/boot/hiddenapi/hiddenapi-max-target-r-loprio.txt'',
               ''packages/modules/My/hiddenapi/hiddenapi-max-target-r-low-priority.txt'',
               ''packages/modules/My/Android.bp'']"
    using ex_plan [of 1]
    by (cases "analyze_plan (ex_world ex_significant_output 1) ex_new_analyzer") auto
  from file_changes_rendered_sorted [OF r]
  have "analyze (ex_world ex_significant_output 1) ex_new_analyzer
          = Inr (list_sort FileChange_lt (file_changes result))"
    and "map path (list_sort FileChange_lt (file_changes result))
          = sort (map path (file_changes result))"
    by simp_all
  then show ?thesis by (simp add: p)
qed

text \<open>
  Claim C10: when the all-flags.csv that \<^verbatim>\<open>load_all_flags\<close> finds has no lines, the
  call succeeds and returns the analyzer unchanged; if its two sets were empty before,
  \<^verbatim>\<open>signatures\<close> and \<^verbatim>\<open>classes\<close> still raise "has not been initialized" on the
  analyzer returned.
\<close>

theorem empty_population:
  assumes "find_bootclasspath_fragment_output_file w an ''all-flags.csv'' = Inr f"
    and "open_lines w f = Inr []"
    and "signatures_attr an = {}"
    and "classes_attr an = {}"
  shows "load_all_flags w an = Inr an
       \<and> (\<forall>an'. load_all_flags w an = Inr an' \<longrightarrow>
             signatures an' = Inl (Exception ''signatures has not been initialized'')
           \<and> classes an' = Inl (Exception ''classes has not been initialized''))"
  using assms by (simp add: load_all_flags_def signatures_def classes_def)

theorem empty_population_witness:
  "load_all_flags ((ex_world [] 0)\<lparr>open_lines := \<lambda>file. Inr []\<rparr>) ex_analyzer
     = Inr ex_analyzer
   \<and> signatures ex_analyzer = Inl (Exception ''signatures has not been initialized'')
   \<and> classes ex_analyzer = Inl (Exception ''classes has not been initialized'')"
proof -
  let ?w = "(ex_world [] 0)\<lparr>open_lines := \<lambda>file. Inr []\<rparr>"
  have h1: "find_bootclasspath_fragment_output_file ?w ex_analyzer ''all-flags.csv''
              = Inr ex_all_flags_file"
    by (simp add: ex_defs parser_defs analysis_defs)
  have h2: "open_lines ?w ex_all_flags_file = Inr []" by simp
  have h3: "signatures_attr ex_analyzer = {}" and h4: "classes_attr ex_analyzer = {}"
    by (simp_all add: ex_defs)
  from empty_population [OF h1 h2 h3 h4] show ?thesis by blast
qed

end
